theory Spec2Isabelle
  imports
    Main
    "HOL-Library.Word"
    "HOL-Library.Signed_Division"
    "HOL-Library.Char_ord"
    "HOL-Library.List_Lexorder"
begin

section \<open>Package transmission: a client for the Transmission RPC service\<close>

text \<open>
  The development embeds the Go package \<open>transmission\<close>: the type \<open>Statistics\<close> with its
  \<open>String\<close> method, the connection \<open>Conn\<close>, the session probe \<open>sessionId\<close>, the transport
  \<open>rpc\<close> and the two operations \<open>Stats\<close> and \<open>Add\<close>.

  Conventions of the embedding.
  \<^item> A Go function returning \<open>(v, err)\<close> returns the pair \<open>(v, err)\<close> here as well, with
    \<open>err :: error option\<close> and \<open>None\<close> for \<open>nil\<close>: what the value is beside a non-nil
    error is part of the model.
  \<^item> A Go \<open>string\<close> and a \<open>[]byte\<close> are byte sequences: \<open>string\<close> (a \<open>char list\<close>).
    The nil slice and the empty string are \<open>[]\<close>.
  \<^item> Go's \<open>int\<close> is the 64-bit signed integer of the usual targets: \<open>64 word\<close>, read
    with \<open>sint\<close>.
  \<^item> The network, \<open>net/url\<close> and \<open>net/http\<close> are outside the package. They are the
    parameter \<open>X\<close> of every function that reaches them, and the state of the remote
    side is threaded through the calls together with the list of requests handed to the
    HTTP client.
  \<^item> \<open>encoding/json\<close> is modelled for the values this package encodes and the structures
    it decodes into.
\<close>

subsection \<open>Errors\<close>

text \<open>
  The package makes its own errors with \<open>errors.New\<close> and \<open>fmt.Errorf\<close>: both give an
  error that is its message (\<open>errorString\<close>). Every other error comes from a library and
  is passed on unchanged: \<open>HTTPError\<close> stands for the errors of \<open>net/url\<close>, \<open>net/http\<close>
  and of reading a response body, with their message; the errors of \<open>encoding/json\<close> are
  \<open>SyntaxError\<close> and \<open>UnmarshalTypeError\<close>, the latter with the description of the
  offending JSON value.
\<close>

datatype error =
    errorString string
  | HTTPError string
  | SyntaxError
  | UnmarshalTypeError string

subsection \<open>Formatting integers\<close>

type_synonym go_int = "64 word"

text \<open>Go's \<open>/\<close> on \<open>int\<close> truncates towards zero (and wraps on the one overflow).\<close>

definition go_quo :: "go_int \<Rightarrow> go_int \<Rightarrow> go_int" where
  "go_quo a b = word_of_int (sint a sdiv sint b)"

definition digit_char :: "nat \<Rightarrow> char" where
  "digit_char d = char_of (48 + d)"

fun digits10 :: "nat \<Rightarrow> string" where
  "digits10 n = (if n < 10 then [digit_char n] else digits10 (n div 10) @ [digit_char (n mod 10)])"

declare digits10.simps [simp del]

text \<open>The verb \<open>%v\<close> on an \<open>int\<close>: the decimal digits, after a minus sign when negative.\<close>

definition FormatInt :: "int \<Rightarrow> string" where
  "FormatInt i = (if i < 0 then CHR ''-'' # digits10 (nat (- i)) else digits10 (nat i))"

text \<open>Reading decimal digits back, to say what a rendering denotes.\<close>

definition digit_val :: "char \<Rightarrow> int" where
  "digit_val ch = int (of_char ch) - 48"

definition is_digit :: "char \<Rightarrow> bool" where
  "is_digit ch = (48 \<le> (of_char ch :: nat) \<and> (of_char ch :: nat) \<le> 57)"

definition decimal_val :: "string \<Rightarrow> int" where
  "decimal_val ds = foldl (\<lambda>acc ch. 10 * acc + digit_val ch) 0 ds"

subsection \<open>Statistics\<close>

record Statistics =
  DownloadSpeed :: go_int
  UploadSpeed :: go_int
  TorrentCount :: go_int
  ActiveTorrentCount :: go_int
  PausedTorrentcount :: go_int

definition String :: "Statistics \<Rightarrow> string" where
  "String s =
     FormatInt (sint (go_quo (DownloadSpeed s) 1024)) @ '' KB/s DL, '' @
     FormatInt (sint (go_quo (UploadSpeed s) 1024)) @ '' KB/s UL, '' @
     FormatInt (sint (TorrentCount s)) @ '' torrents ('' @
     FormatInt (sint (ActiveTorrentCount s)) @ '' active, '' @
     FormatInt (sint (PausedTorrentcount s)) @ '' paused)''"

subsection \<open>Encoding requests: \<open>json.Marshal\<close>\<close>

text \<open>
  The values this package hands to \<open>json.Marshal\<close>: a \<open>map[string]string\<close> and a
  \<open>map[string]interface{}\<close> holding a string, a bool and a nested map. A map is written
  as the list of its entries; \<open>Marshal\<close> emits the entries sorted by key, so the order of
  the list does not show. The encoder is the one of the current Go releases; older
  ones spell some escapes of control characters differently, with the same meaning.
\<close>

datatype gval = GString string | GBool bool | GMap "(string \<times> gval) list"

definition byte :: "char \<Rightarrow> nat" where
  "byte ch = of_char ch"

definition hex_char :: "nat \<Rightarrow> char" where
  "hex_char d = (if d < 10 then char_of (48 + d) else char_of (87 + d))"

text \<open>
  \<open>utf8.DecodeRune\<close> on a non-empty byte sequence: the code point and the number of
  bytes it takes, or \<open>RuneError\<close> with width 1 where the bytes are not UTF-8.
\<close>

definition RuneError :: nat where
  "RuneError = 0xFFFD"

definition cont_in :: "nat \<Rightarrow> nat \<Rightarrow> char \<Rightarrow> bool" where
  "cont_in lo hi ch = (lo \<le> byte ch \<and> byte ch \<le> hi)"

definition accept_lo :: "nat \<Rightarrow> nat" where
  "accept_lo p0 = (if p0 = 0xE0 then 0xA0 else if p0 = 0xF0 then 0x90 else 0x80)"

definition accept_hi :: "nat \<Rightarrow> nat" where
  "accept_hi p0 = (if p0 = 0xED then 0x9F else if p0 = 0xF4 then 0x8F else 0xBF)"

definition DecodeRune :: "string \<Rightarrow> nat \<times> nat" where
  "DecodeRune p =
     (case p of
        [] \<Rightarrow> (RuneError, 0)
      | c0 # p1 \<Rightarrow>
          let p0 = byte c0 in
          if p0 < 0x80 then (p0, 1)
          else if p0 < 0xC2 \<or> 0xF4 < p0 then (RuneError, 1)
          else
            (case p1 of
               [] \<Rightarrow> (RuneError, 1)
             | c1 # p2 \<Rightarrow>
                 if \<not> cont_in (accept_lo p0) (accept_hi p0) c1 then (RuneError, 1)
                 else if p0 < 0xE0 then ((p0 mod 0x20) * 0x40 + byte c1 mod 0x40, 2)
                 else
                   (case p2 of
                      [] \<Rightarrow> (RuneError, 1)
                    | c2 # p3 \<Rightarrow>
                        if \<not> cont_in 0x80 0xBF c2 then (RuneError, 1)
                        else if p0 < 0xF0
                        then ((p0 mod 0x10) * 0x1000 + (byte c1 mod 0x40) * 0x40 + byte c2 mod 0x40, 3)
                        else
                          (case p3 of
                             [] \<Rightarrow> (RuneError, 1)
                           | c3 # _ \<Rightarrow>
                               if \<not> cont_in 0x80 0xBF c3 then (RuneError, 1)
                               else ((p0 mod 0x08) * 0x40000 + (byte c1 mod 0x40) * 0x1000
                                     + (byte c2 mod 0x40) * 0x40 + byte c3 mod 0x40, 4)))))"

text \<open>\<open>utf8.EncodeRune\<close>: a surrogate or a value beyond U+10FFFF is written as U+FFFD.\<close>

definition EncodeRune :: "nat \<Rightarrow> string" where
  "EncodeRune r =
     (if r < 0x80 then [char_of r]
      else if r < 0x800 then [char_of (0xC0 + r div 0x40), char_of (0x80 + r mod 0x40)]
      else if (0xD800 \<le> r \<and> r < 0xE000) \<or> 0x10FFFF < r then [CHR 0xEF, CHR 0xBF, CHR 0xBD]
      else if r < 0x10000
      then [char_of (0xE0 + r div 0x1000), char_of (0x80 + (r div 0x40) mod 0x40),
            char_of (0x80 + r mod 0x40)]
      else [char_of (0xF0 + r div 0x40000), char_of (0x80 + (r div 0x1000) mod 0x40),
            char_of (0x80 + (r div 0x40) mod 0x40), char_of (0x80 + r mod 0x40)])"

text \<open>
  The encoder's \<open>appendString\<close> with HTML escaping on, as \<open>Marshal\<close> calls it. An ASCII
  byte is copied unless it is a control character, a quote, a backslash or one of
  \<open><\<close>, \<open>>\<close>, \<open>&\<close>; bytes that are not UTF-8 are written as the escape of
  U+FFFD, and U+2028 and U+2029 are escaped.
\<close>

definition htmlSafe :: "char \<Rightarrow> bool" where
  \<open>htmlSafe ch = (0x20 \<le> byte ch \<and> byte ch < 0x80 \<and>
      ch \<noteq> CHR 0x22 \<and> ch \<noteq> CHR 0x5C \<and> ch \<noteq> CHR ''<'' \<and> ch \<noteq> CHR ''>'' \<and> ch \<noteq> CHR ''&'')\<close>

definition escape_ascii :: "char \<Rightarrow> string" where
  \<open>escape_ascii ch =
     (if htmlSafe ch then [ch]
      else if ch = CHR 0x5C \<or> ch = CHR 0x22 then [CHR 0x5C, ch]
      else if byte ch = 0x08 then [CHR 0x5C, CHR ''b'']
      else if byte ch = 0x0C then [CHR 0x5C, CHR ''f'']
      else if byte ch = 0x0A then [CHR 0x5C, CHR ''n'']
      else if byte ch = 0x0D then [CHR 0x5C, CHR ''r'']
      else if byte ch = 0x09 then [CHR 0x5C, CHR ''t'']
      else [CHR 0x5C, CHR ''u'', CHR ''0'', CHR ''0'',
            hex_char (byte ch div 16), hex_char (byte ch mod 16)])\<close>

fun escape_bytes :: "string \<Rightarrow> string" where
  "escape_bytes [] = []"
| "escape_bytes (c # cs) =
     (if byte c < 0x80 then escape_ascii c @ escape_bytes cs
      else
        (case DecodeRune (c # cs) of (r, n) \<Rightarrow>
           if r = RuneError \<and> n = 1
           then [CHR 0x5C, CHR ''u'', CHR ''f'', CHR ''f'', CHR ''f'', CHR ''d''] @ escape_bytes cs
           else if r = 0x2028 \<or> r = 0x2029
           then [CHR 0x5C, CHR ''u'', CHR ''2'', CHR ''0'', CHR ''2'', hex_char (r mod 16)]
                @ escape_bytes (drop (n - 1) cs)
           else take n (c # cs) @ escape_bytes (drop (n - 1) cs)))"

definition appendString :: "string \<Rightarrow> string" where
  \<open>appendString src = [CHR 0x22] @ escape_bytes src @ [CHR 0x22]\<close>

fun comma_join :: "string list \<Rightarrow> string" where
  "comma_join [] = []"
| "comma_join [x] = x"
| "comma_join (x # y # ys) = x @ '','' @ comma_join (y # ys)"

fun encode :: "gval \<Rightarrow> string" where
  "encode (GString s) = appendString s"
| "encode (GBool b) = (if b then ''true'' else ''false'')"
| "encode (GMap kvs) =
     ''{'' @ comma_join (map (\<lambda>(k, e). appendString k @ '':'' @ e)
                          (sort_key fst (map (\<lambda>(k, v). (k, encode v)) kvs))) @ ''}''"

declare encode.simps [simp del]

text \<open>
  \<open>json.Marshal\<close> returns the encoding and an error. No value of \<open>gval\<close> is rejected
  by the encoder, so the error is \<open>nil\<close>.
\<close>

definition Marshal :: "gval \<Rightarrow> string \<times> error option" where
  "Marshal v = (encode v, None)"

subsection \<open>Decoding responses: the JSON text\<close>

datatype json =
    JNull
  | JBool bool
  | JNumber string
  | JString string
  | JArray "json list"
  | JObject "(string \<times> json) list"

text \<open>
  A number keeps its literal; an object keeps its members in the order of the text,
  duplicates included, as the decoder visits them.
\<close>

datatype token =
    TLBrace | TRBrace | TLBrack | TRBrack | TColon | TComma
  | TStr string | TNum string | TTrue | TFalse | TNull

definition is_space :: "char \<Rightarrow> bool" where
  "is_space ch = (ch = CHR '' '' \<or> byte ch = 0x09 \<or> byte ch = 0x0D \<or> byte ch = 0x0A)"

definition is_hex :: "char \<Rightarrow> bool" where
  "is_hex ch = (is_digit ch \<or> (97 \<le> byte ch \<and> byte ch \<le> 102) \<or> (65 \<le> byte ch \<and> byte ch \<le> 70))"

definition hex_val :: "char \<Rightarrow> nat" where
  "hex_val ch = (if is_digit ch then byte ch - 48
                 else if 97 \<le> byte ch then byte ch - 87 else byte ch - 55)"

definition num_char :: "char \<Rightarrow> bool" where
  "num_char ch = (is_digit ch \<or> ch = CHR ''.'' \<or> ch = CHR ''e'' \<or> ch = CHR ''E''
                  \<or> ch = CHR ''+'' \<or> ch = CHR ''-'')"

text \<open>The number grammar of JSON: sign, integer part without leading zero, fraction, exponent.\<close>

definition valid_exp :: "string \<Rightarrow> bool" where
  "valid_exp r =
     (case r of
        [] \<Rightarrow> True
      | c # r1 \<Rightarrow>
          (c = CHR ''e'' \<or> c = CHR ''E'') \<and>
          (let r2 = (case r1 of [] \<Rightarrow> [] | d # r3 \<Rightarrow> if d = CHR ''+'' \<or> d = CHR ''-'' then r3 else r1)
           in r2 \<noteq> [] \<and> list_all is_digit r2))"

definition valid_frac :: "string \<Rightarrow> bool" where
  "valid_frac r =
     (case r of
        [] \<Rightarrow> True
      | c # r1 \<Rightarrow>
          if c = CHR ''.''
          then takeWhile is_digit r1 \<noteq> [] \<and> valid_exp (dropWhile is_digit r1)
          else valid_exp r)"

definition valid_number :: "string \<Rightarrow> bool" where
  "valid_number lit =
     (let body = (case lit of [] \<Rightarrow> [] | c # r \<Rightarrow> if c = CHR ''-'' then r else lit)
      in case body of
           [] \<Rightarrow> False
         | d # r \<Rightarrow>
             if d = CHR ''0'' then valid_frac r
             else is_digit d \<and> valid_frac (dropWhile is_digit r))"

text \<open>
  The decoder's \<open>unquote\<close> on the inside of a scanned string literal: escapes are
  replaced, \<open>\u\<close> escapes become UTF-8 (a surrogate pair one code point, a lone surrogate
  U+FFFD), and bytes that are not UTF-8 become U+FFFD.
\<close>

definition getu4 :: "string \<Rightarrow> nat option" where
  \<open>getu4 s =
     (case s of
        b # u # h1 # h2 # h3 # h4 # _ \<Rightarrow>
          if b = CHR 0x5C \<and> u = CHR ''u'' \<and> is_hex h1 \<and> is_hex h2 \<and> is_hex h3 \<and> is_hex h4
          then Some (((hex_val h1 * 16 + hex_val h2) * 16 + hex_val h3) * 16 + hex_val h4)
          else None
      | _ \<Rightarrow> None)\<close>

definition unescape :: "char \<Rightarrow> char" where
  "unescape e =
     (if e = CHR ''b'' then CHR 0x08
      else if e = CHR ''f'' then CHR 0x0C
      else if e = CHR ''n'' then CHR 0x0A
      else if e = CHR ''r'' then CHR 0x0D
      else if e = CHR ''t'' then CHR 0x09
      else e)"

definition utf16_DecodeRune :: "nat \<Rightarrow> nat option \<Rightarrow> nat" where
  "utf16_DecodeRune r1 r2 =
     (case r2 of
        None \<Rightarrow> RuneError
      | Some r2' \<Rightarrow>
          if 0xD800 \<le> r1 \<and> r1 < 0xDC00 \<and> 0xDC00 \<le> r2' \<and> r2' < 0xE000
          then (r1 - 0xD800) * 0x400 + (r2' - 0xDC00) + 0x10000
          else RuneError)"

fun unquote :: "string \<Rightarrow> string" where
  "unquote [] = []"
| "unquote (c # cs) =
     (if c = CHR 0x5C then
        (case cs of
           [] \<Rightarrow> []
         | e # rest \<Rightarrow>
             if e = CHR ''u'' then
               (case getu4 (c # cs) of
                  None \<Rightarrow> []
                | Some rr \<Rightarrow>
                    if 0xD800 \<le> rr \<and> rr < 0xE000 then
                      (if utf16_DecodeRune rr (getu4 (drop 4 rest)) \<noteq> RuneError
                       then EncodeRune (utf16_DecodeRune rr (getu4 (drop 4 rest))) @ unquote (drop 10 rest)
                       else EncodeRune RuneError @ unquote (drop 4 rest))
                    else EncodeRune rr @ unquote (drop 4 rest))
             else unescape e # unquote rest)
      else if byte c < 0x80 then c # unquote cs
      else (case DecodeRune (c # cs) of (rr, n) \<Rightarrow> EncodeRune rr @ unquote (drop (n - 1) cs)))"

text \<open>
  The scanner, one byte at a time. \<open>Top\<close> is between tokens; the other modes are inside a
  string literal (after a backslash, inside the four digits of a \<open>\u\<close>), inside a
  number, and inside one of the words \<open>true\<close>, \<open>false\<close>, \<open>null\<close>.
\<close>

datatype mode =
    Top
  | InStr string
  | InEsc string
  | InU nat string
  | InNum string
  | InLit string token

definition punct :: "char \<Rightarrow> token option" where
  "punct ch =
     (if ch = CHR ''{'' then Some TLBrace
      else if ch = CHR ''}'' then Some TRBrace
      else if ch = CHR ''['' then Some TLBrack
      else if ch = CHR '']'' then Some TRBrack
      else if ch = CHR '':'' then Some TColon
      else if ch = CHR '','' then Some TComma
      else None)"

definition emit :: "token \<Rightarrow> token list option \<Rightarrow> token list option" where
  "emit t r = map_option ((#) t) r"

fun mode_rank :: "mode \<Rightarrow> nat" where
  "mode_rank (InNum _) = 1"
| "mode_rank _ = 0"

function lex :: "mode \<Rightarrow> string \<Rightarrow> token list option" where
  "lex Top [] = Some []"
| "lex (InNum lit) [] = (if valid_number lit then Some [TNum lit] else None)"
| "lex (InStr raw) [] = None"
| "lex (InEsc raw) [] = None"
| "lex (InU k raw) [] = None"
| "lex (InLit w t) [] = None"
| "lex Top (c # cs) =
     (if is_space c then lex Top cs
      else if c = CHR 0x22 then lex (InStr []) cs
      else if c = CHR ''-'' \<or> is_digit c then lex (InNum [c]) cs
      else if c = CHR ''t'' then lex (InLit ''rue'' TTrue) cs
      else if c = CHR ''f'' then lex (InLit ''alse'' TFalse) cs
      else if c = CHR ''n'' then lex (InLit ''ull'' TNull) cs
      else (case punct c of None \<Rightarrow> None | Some t \<Rightarrow> emit t (lex Top cs)))"
| "lex (InStr raw) (c # cs) =
     (if c = CHR 0x22 then emit (TStr (unquote raw)) (lex Top cs)
      else if c = CHR 0x5C then lex (InEsc raw) cs
      else if byte c < 0x20 then None
      else lex (InStr (raw @ [c])) cs)"
| "lex (InEsc raw) (c # cs) =
     (if c = CHR ''u'' then lex (InU 4 (raw @ [CHR 0x5C, c])) cs
      else if c \<in> set [CHR ''b'', CHR ''f'', CHR ''n'', CHR ''r'', CHR ''t'', CHR 0x5C, CHR ''/'', CHR 0x22]
      then lex (InStr (raw @ [CHR 0x5C, c])) cs
      else None)"
| "lex (InU k raw) (c # cs) =
     (if \<not> is_hex c then None
      else if k \<le> 1 then lex (InStr (raw @ [c])) cs
      else lex (InU (k - 1) (raw @ [c])) cs)"
| "lex (InNum lit) (c # cs) =
     (if num_char c then lex (InNum (lit @ [c])) cs
      else if valid_number lit then emit (TNum lit) (lex Top (c # cs))
      else None)"
| "lex (InLit w t) (c # cs) =
     (case w of
        [] \<Rightarrow> None
      | x # xs \<Rightarrow>
          if c \<noteq> x then None
          else if xs = [] then emit t (lex Top cs)
          else lex (InLit xs t) cs)"
  by pat_completeness auto
termination
  by (relation "measure (\<lambda>(m, s). 2 * length s + mode_rank m)") auto

declare lex.simps [simp del]

text \<open>
  The grammar, one token at a time, with the stack of the open arrays and objects. An
  open object remembers the key whose value is awaited. The scanner of \<open>encoding/json\<close>
  refuses a nesting deeper than \<open>maxNestingDepth\<close>.
\<close>

datatype frame = FArr "json list" | FObj "(string \<times> json) list" string

datatype pstate =
    BeginValue
  | BeginValueOrEmpty
  | BeginStringOrEmpty
  | BeginString
  | ObjectKey
  | AfterValue
  | End json

definition maxNestingDepth :: nat where
  "maxNestingDepth = 10000"

definition deliver :: "json \<Rightarrow> frame list \<Rightarrow> pstate \<times> frame list" where
  "deliver v st =
     (case st of
        [] \<Rightarrow> (End v, [])
      | FArr xs # st' \<Rightarrow> (AfterValue, FArr (xs @ [v]) # st')
      | FObj ms k # st' \<Rightarrow> (AfterValue, FObj (ms @ [(k, v)]) k # st'))"

definition push :: "pstate \<Rightarrow> frame \<Rightarrow> frame list \<Rightarrow> (pstate \<times> frame list) option" where
  "push s f st = (if length st < maxNestingDepth then Some (s, f # st) else None)"

definition begin_value :: "token \<Rightarrow> frame list \<Rightarrow> (pstate \<times> frame list) option" where
  "begin_value t st =
     (case t of
        TStr s \<Rightarrow> Some (deliver (JString s) st)
      | TNum n \<Rightarrow> Some (deliver (JNumber n) st)
      | TTrue \<Rightarrow> Some (deliver (JBool True) st)
      | TFalse \<Rightarrow> Some (deliver (JBool False) st)
      | TNull \<Rightarrow> Some (deliver JNull st)
      | TLBrack \<Rightarrow> push BeginValueOrEmpty (FArr []) st
      | TLBrace \<Rightarrow> push BeginStringOrEmpty (FObj [] []) st
      | _ \<Rightarrow> None)"

definition begin_key :: "token \<Rightarrow> frame list \<Rightarrow> (pstate \<times> frame list) option" where
  "begin_key t st =
     (case (t, st) of
        (TStr k, FObj ms _ # st') \<Rightarrow> Some (ObjectKey, FObj ms k # st')
      | _ \<Rightarrow> None)"

definition step :: "pstate \<Rightarrow> frame list \<Rightarrow> token \<Rightarrow> (pstate \<times> frame list) option" where
  "step s st t =
     (case s of
        BeginValue \<Rightarrow> begin_value t st
      | BeginValueOrEmpty \<Rightarrow>
          (if t = TRBrack
           then (case st of FArr xs # st' \<Rightarrow> Some (deliver (JArray xs) st') | _ \<Rightarrow> None)
           else begin_value t st)
      | BeginStringOrEmpty \<Rightarrow>
          (if t = TRBrace
           then (case st of FObj ms k # st' \<Rightarrow> Some (deliver (JObject ms) st') | _ \<Rightarrow> None)
           else begin_key t st)
      | BeginString \<Rightarrow> begin_key t st
      | ObjectKey \<Rightarrow> (if t = TColon then Some (BeginValue, st) else None)
      | AfterValue \<Rightarrow>
          (case st of
             [] \<Rightarrow> None
           | FArr xs # st' \<Rightarrow>
               if t = TComma then Some (BeginValue, st)
               else if t = TRBrack then Some (deliver (JArray xs) st')
               else None
           | FObj ms k # st' \<Rightarrow>
               if t = TComma then Some (BeginString, st)
               else if t = TRBrace then Some (deliver (JObject ms) st')
               else None)
      | End v \<Rightarrow> None)"

fun run :: "pstate \<Rightarrow> frame list \<Rightarrow> token list \<Rightarrow> json option" where
  "run s st [] = (case s of End v \<Rightarrow> Some v | _ \<Rightarrow> None)"
| "run s st (t # ts) = (case step s st t of None \<Rightarrow> None | Some (s', st') \<Rightarrow> run s' st' ts)"

definition parse :: "string \<Rightarrow> json option" where
  "parse data = (case lex Top data of None \<Rightarrow> None | Some ts \<Rightarrow> run BeginValue [] ts)"

subsection \<open>Decoding responses: \<open>json.Unmarshal\<close> into the package's structures\<close>

record torrentAdded =
  Id' :: go_int
  Name :: string
  HashString :: string

record torrentAddedArguments =
  TorrentAdded :: torrentAdded

record sessionStats =
  Arguments :: Statistics
  Result :: string

record torrentAdd =
  Arguments :: torrentAddedArguments
  Result :: string

text \<open>The zero values, as \<open>var r sessionStats\<close> and \<open>var r torrentAdd\<close> give them.\<close>

definition zero_Statistics :: Statistics where
  "zero_Statistics = \<lparr>DownloadSpeed = 0, UploadSpeed = 0, TorrentCount = 0,
                       ActiveTorrentCount = 0, PausedTorrentcount = 0\<rparr>"

definition zero_sessionStats :: sessionStats where
  "zero_sessionStats = \<lparr>sessionStats.Arguments = zero_Statistics, sessionStats.Result = []\<rparr>"

definition zero_torrentAdd :: torrentAdd where
  "zero_torrentAdd =
     \<lparr>torrentAdd.Arguments = \<lparr>TorrentAdded = \<lparr>Id' = 0, Name = [], HashString = []\<rparr>\<rparr>,
      torrentAdd.Result = []\<rparr>"

text \<open>
  A key of the text names a field when both are equal after case folding. The folding
  maps a small ASCII letter to the capital one and the two code points outside ASCII
  that fold to an ASCII letter, U+017F to \<open>S\<close> and U+212A to \<open>K\<close>; no other code point
  folds into ASCII, and the field names are ASCII, so every other byte is kept. No two
  fields of one structure fold to the same name.
\<close>

fun foldName :: "string \<Rightarrow> string" where
  "foldName [] = []"
| "foldName (c # cs) =
     (if 97 \<le> byte c \<and> byte c \<le> 122 then char_of (byte c - 32) # foldName cs
      else if c = CHR 0xC5 \<and> take 1 cs = [CHR 0xBF] then CHR ''S'' # foldName (drop 1 cs)
      else if c = CHR 0xE2 \<and> take 2 cs = [CHR 0x84, CHR 0xAA] then CHR ''K'' # foldName (drop 2 cs)
      else c # foldName cs)"

definition field_match :: "string \<Rightarrow> string \<Rightarrow> bool" where
  "field_match name key = (foldName key = foldName name)"

text \<open>
  A value of the wrong kind is an \<open>UnmarshalTypeError\<close>; the decoder keeps the first
  one, leaves the field as it is and goes on. \<open>null\<close> leaves a field as it is, with no
  error.
\<close>

definition saveError :: "error option \<Rightarrow> error \<Rightarrow> error option" where
  "saveError saved e = (case saved of None \<Rightarrow> Some e | Some _ \<Rightarrow> saved)"

definition kind :: "json \<Rightarrow> string" where
  "kind v =
     (case v of
        JNull \<Rightarrow> ''null''
      | JBool _ \<Rightarrow> ''bool''
      | JNumber _ \<Rightarrow> ''number''
      | JString _ \<Rightarrow> ''string''
      | JArray _ \<Rightarrow> ''array''
      | JObject _ \<Rightarrow> ''object'')"

text \<open>\<open>strconv.ParseInt\<close> in base 10 to 64 bits, on the literal of a JSON number.\<close>

definition ParseInt :: "string \<Rightarrow> go_int option" where
  "ParseInt lit =
     (let neg = (case lit of [] \<Rightarrow> False | c # _ \<Rightarrow> c = CHR ''-'');
          ds = (if neg then tl lit else lit)
      in if ds = [] \<or> \<not> list_all is_digit ds then None
         else if neg
         then (if decimal_val ds \<le> 9223372036854775808 then Some (word_of_int (- decimal_val ds)) else None)
         else (if decimal_val ds < 9223372036854775808 then Some (word_of_int (decimal_val ds)) else None))"

definition store_string :: "json \<Rightarrow> string \<Rightarrow> error option \<Rightarrow> string \<times> error option" where
  "store_string v old e =
     (case v of
        JString x \<Rightarrow> (x, e)
      | JNull \<Rightarrow> (old, e)
      | _ \<Rightarrow> (old, saveError e (UnmarshalTypeError (kind v))))"

definition store_int :: "json \<Rightarrow> go_int \<Rightarrow> error option \<Rightarrow> go_int \<times> error option" where
  "store_int v old e =
     (case v of
        JNumber lit \<Rightarrow>
          (case ParseInt lit of
             Some n \<Rightarrow> (n, e)
           | None \<Rightarrow> (old, saveError e (UnmarshalTypeError (''number '' @ lit))))
      | JNull \<Rightarrow> (old, e)
      | _ \<Rightarrow> (old, saveError e (UnmarshalTypeError (kind v))))"

fun object_Statistics :: "(string \<times> json) list \<Rightarrow> Statistics \<Rightarrow> error option \<Rightarrow> Statistics \<times> error option" where
  "object_Statistics [] s e = (s, e)"
| "object_Statistics ((k, v) # kvs) s e =
     (if field_match ''DownloadSpeed'' k
      then (case store_int v (DownloadSpeed s) e of
              (n, e') \<Rightarrow> object_Statistics kvs (s\<lparr>DownloadSpeed := n\<rparr>) e')
      else if field_match ''UploadSpeed'' k
      then (case store_int v (UploadSpeed s) e of
              (n, e') \<Rightarrow> object_Statistics kvs (s\<lparr>UploadSpeed := n\<rparr>) e')
      else if field_match ''TorrentCount'' k
      then (case store_int v (TorrentCount s) e of
              (n, e') \<Rightarrow> object_Statistics kvs (s\<lparr>TorrentCount := n\<rparr>) e')
      else if field_match ''ActiveTorrentCount'' k
      then (case store_int v (ActiveTorrentCount s) e of
              (n, e') \<Rightarrow> object_Statistics kvs (s\<lparr>ActiveTorrentCount := n\<rparr>) e')
      else if field_match ''PausedTorrentcount'' k
      then (case store_int v (PausedTorrentcount s) e of
              (n, e') \<Rightarrow> object_Statistics kvs (s\<lparr>PausedTorrentcount := n\<rparr>) e')
      else object_Statistics kvs s e)"

definition value_Statistics :: "json \<Rightarrow> Statistics \<Rightarrow> error option \<Rightarrow> Statistics \<times> error option" where
  "value_Statistics v s e =
     (case v of
        JObject kvs \<Rightarrow> object_Statistics kvs s e
      | JNull \<Rightarrow> (s, e)
      | _ \<Rightarrow> (s, saveError e (UnmarshalTypeError (kind v))))"

fun object_sessionStats :: "(string \<times> json) list \<Rightarrow> sessionStats \<Rightarrow> error option \<Rightarrow> sessionStats \<times> error option" where
  "object_sessionStats [] r e = (r, e)"
| "object_sessionStats ((k, v) # kvs) r e =
     (if field_match ''Arguments'' k
      then (case value_Statistics v (sessionStats.Arguments r) e of
              (a, e') \<Rightarrow> object_sessionStats kvs (r\<lparr>sessionStats.Arguments := a\<rparr>) e')
      else if field_match ''Result'' k
      then (case store_string v (sessionStats.Result r) e of
              (x, e') \<Rightarrow> object_sessionStats kvs (r\<lparr>sessionStats.Result := x\<rparr>) e')
      else object_sessionStats kvs r e)"

definition value_sessionStats :: "json \<Rightarrow> sessionStats \<Rightarrow> error option \<Rightarrow> sessionStats \<times> error option" where
  "value_sessionStats v r e =
     (case v of
        JObject kvs \<Rightarrow> object_sessionStats kvs r e
      | JNull \<Rightarrow> (r, e)
      | _ \<Rightarrow> (r, saveError e (UnmarshalTypeError (kind v))))"

fun object_torrentAdded :: "(string \<times> json) list \<Rightarrow> torrentAdded \<Rightarrow> error option \<Rightarrow> torrentAdded \<times> error option" where
  "object_torrentAdded [] t e = (t, e)"
| "object_torrentAdded ((k, v) # kvs) t e =
     (if field_match ''Id'' k
      then (case store_int v (Id' t) e of
              (n, e') \<Rightarrow> object_torrentAdded kvs (t\<lparr>Id' := n\<rparr>) e')
      else if field_match ''Name'' k
      then (case store_string v (Name t) e of
              (x, e') \<Rightarrow> object_torrentAdded kvs (t\<lparr>Name := x\<rparr>) e')
      else if field_match ''HashString'' k
      then (case store_string v (HashString t) e of
              (x, e') \<Rightarrow> object_torrentAdded kvs (t\<lparr>HashString := x\<rparr>) e')
      else object_torrentAdded kvs t e)"

definition value_torrentAdded :: "json \<Rightarrow> torrentAdded \<Rightarrow> error option \<Rightarrow> torrentAdded \<times> error option" where
  "value_torrentAdded v t e =
     (case v of
        JObject kvs \<Rightarrow> object_torrentAdded kvs t e
      | JNull \<Rightarrow> (t, e)
      | _ \<Rightarrow> (t, saveError e (UnmarshalTypeError (kind v))))"

text \<open>The field \<open>TorrentAdded\<close> carries the tag \<open>json:"torrent-added"\<close>: that is its name in the text.\<close>

fun object_torrentAddedArguments :: "(string \<times> json) list \<Rightarrow> torrentAddedArguments \<Rightarrow> error option \<Rightarrow> torrentAddedArguments \<times> error option" where
  "object_torrentAddedArguments [] a e = (a, e)"
| "object_torrentAddedArguments ((k, v) # kvs) a e =
     (if field_match ''torrent-added'' k
      then (case value_torrentAdded v (TorrentAdded a) e of
              (t, e') \<Rightarrow> object_torrentAddedArguments kvs (a\<lparr>TorrentAdded := t\<rparr>) e')
      else object_torrentAddedArguments kvs a e)"

definition value_torrentAddedArguments :: "json \<Rightarrow> torrentAddedArguments \<Rightarrow> error option \<Rightarrow> torrentAddedArguments \<times> error option" where
  "value_torrentAddedArguments v a e =
     (case v of
        JObject kvs \<Rightarrow> object_torrentAddedArguments kvs a e
      | JNull \<Rightarrow> (a, e)
      | _ \<Rightarrow> (a, saveError e (UnmarshalTypeError (kind v))))"

fun object_torrentAdd :: "(string \<times> json) list \<Rightarrow> torrentAdd \<Rightarrow> error option \<Rightarrow> torrentAdd \<times> error option" where
  "object_torrentAdd [] r e = (r, e)"
| "object_torrentAdd ((k, v) # kvs) r e =
     (if field_match ''Arguments'' k
      then (case value_torrentAddedArguments v (torrentAdd.Arguments r) e of
              (a, e') \<Rightarrow> object_torrentAdd kvs (r\<lparr>torrentAdd.Arguments := a\<rparr>) e')
      else if field_match ''Result'' k
      then (case store_string v (torrentAdd.Result r) e of
              (x, e') \<Rightarrow> object_torrentAdd kvs (r\<lparr>torrentAdd.Result := x\<rparr>) e')
      else object_torrentAdd kvs r e)"

definition value_torrentAdd :: "json \<Rightarrow> torrentAdd \<Rightarrow> error option \<Rightarrow> torrentAdd \<times> error option" where
  "value_torrentAdd v r e =
     (case v of
        JObject kvs \<Rightarrow> object_torrentAdd kvs r e
      | JNull \<Rightarrow> (r, e)
      | _ \<Rightarrow> (r, saveError e (UnmarshalTypeError (kind v))))"

text \<open>
  \<open>json.Unmarshal(data, &r)\<close>: the text is checked as a whole first, and a text that is
  not one JSON value is a \<open>SyntaxError\<close> that leaves \<open>r\<close> as it is.
\<close>

definition Unmarshal_sessionStats :: "string \<Rightarrow> sessionStats \<Rightarrow> sessionStats \<times> error option" where
  "Unmarshal_sessionStats data r =
     (case parse data of
        None \<Rightarrow> (r, Some SyntaxError)
      | Some v \<Rightarrow> value_sessionStats v r None)"

definition Unmarshal_torrentAdd :: "string \<Rightarrow> torrentAdd \<Rightarrow> torrentAdd \<times> error option" where
  "Unmarshal_torrentAdd data r =
     (case parse data of
        None \<Rightarrow> (r, Some SyntaxError)
      | Some v \<Rightarrow> value_torrentAdd v r None)"

subsection \<open>HTTP requests, responses and the remote side\<close>

type_synonym Header = "string \<rightharpoonup> string list"

record request =
  Method :: string
  URL :: string
  ReqHeader :: Header
  ReqBody :: string

text \<open>
  Of a response the package reads the header map and the body. \<open>Body\<close> and \<open>BodyErr\<close> are
  what \<open>ioutil.ReadAll\<close> returns on the body: the bytes read and the error that stopped
  the reading, if any. The status code is never read by the package.
\<close>

record response =
  StatusCode :: nat
  Header :: Header
  Body :: string
  BodyErr :: "string option"

text \<open>
  The libraries and the remote side: \<open>url_Parse\<close> tells whether \<open>net/url\<close> rejects a
  URL (with the message), \<open>RoundTrip\<close> is the HTTP client answering one request in a
  state \<open>'w\<close> of the network and the remote service, with an error message or a
  response, and the next state.
\<close>

record 'w extern =
  url_Parse :: "string \<Rightarrow> string option"
  RoundTrip :: "request \<Rightarrow> 'w \<Rightarrow> (string + response) \<times> 'w"

text \<open>The requests handed to the HTTP client so far, oldest first, and the remote state.\<close>

record 'w world =
  sent :: "request list"
  remote :: 'w

definition NewRequest :: "'w extern \<Rightarrow> string \<Rightarrow> string \<Rightarrow> string \<Rightarrow> request \<times> error option" where
  "NewRequest X m u b =
     (case url_Parse X u of
        Some msg \<Rightarrow> (\<lparr>Method = [], URL = [], ReqHeader = Map.empty, ReqBody = []\<rparr>, Some (HTTPError msg))
      | None \<Rightarrow> (\<lparr>Method = m, URL = u, ReqHeader = Map.empty, ReqBody = b\<rparr>, None))"

definition Header_Add :: "Header \<Rightarrow> string \<Rightarrow> string \<Rightarrow> Header" where
  "Header_Add h k v = h(k \<mapsto> (case h k of None \<Rightarrow> [] | Some vs \<Rightarrow> vs) @ [v])"

definition client_Do :: "'w extern \<Rightarrow> request \<Rightarrow> 'w world \<Rightarrow> (error + response) \<times> 'w world" where
  "client_Do X req s =
     (case RoundTrip X req (remote s) of
        (Inl msg, w) \<Rightarrow> (Inl (HTTPError msg), \<lparr>sent = sent s @ [req], remote = w\<rparr>)
      | (Inr resp, w) \<Rightarrow> (Inr resp, \<lparr>sent = sent s @ [req], remote = w\<rparr>))"

definition client_Get :: "'w extern \<Rightarrow> string \<Rightarrow> 'w world \<Rightarrow> (error + response) \<times> 'w world" where
  "client_Get X u s =
     (case NewRequest X ''GET'' u [] of
        (_, Some err) \<Rightarrow> (Inl err, s)
      | (req, None) \<Rightarrow> client_Do X req s)"

definition ReadAll :: "response \<Rightarrow> string \<times> error option" where
  "ReadAll resp = (Body resp, map_option HTTPError (BodyErr resp))"

subsection \<open>The connection and the session probe\<close>

record Conn =
  url :: string

definition New :: "'w extern \<Rightarrow> string \<Rightarrow> Conn option \<times> error option" where
  "New X rawurl =
     (case url_Parse X rawurl of
        Some msg \<Rightarrow> (None, Some (HTTPError msg))
      | None \<Rightarrow> (Some \<lparr>url = rawurl\<rparr>, None))"

definition sessionId :: "'w extern \<Rightarrow> Conn \<Rightarrow> 'w world \<Rightarrow> (string \<times> error option) \<times> 'w world" where
  "sessionId X c s =
     (case client_Get X (url c @ ''/transmission/rpc'') s of
        (Inl err, s') \<Rightarrow> (([], Some err), s')
      | (Inr resp, s') \<Rightarrow>
          (case Header resp ''X-Transmission-Session-Id'' of
             None \<Rightarrow> (([], Some (errorString ''transmission: sessionId not found'')), s')
           | Some values \<Rightarrow>
               if length values < 1
               then (([], Some (errorString ''transmission: sessionId not found'')), s')
               else ((values ! 0, None), s')))"

subsection \<open>The transport\<close>

text \<open>
  \<open>rpc\<close> asks for a session ID, encodes the request, and posts it with the ID in the
  header \<open>X-Transmission-Session-Id\<close> (the name is in the canonical form of
  \<open>Header.Add\<close> already). It returns what reading the body of the response returns.
\<close>

definition rpc :: "'w extern \<Rightarrow> Conn \<Rightarrow> gval \<Rightarrow> 'w world \<Rightarrow> (string \<times> error option) \<times> 'w world" where
  "rpc X c request s =
     (case sessionId X c s of
        ((_, Some err), s1) \<Rightarrow> (([], Some err), s1)
      | ((sessId, None), s1) \<Rightarrow>
          (case Marshal request of
             (_, Some err) \<Rightarrow> (([], Some err), s1)
           | (js, None) \<Rightarrow>
               (case NewRequest X ''POST'' (url c @ ''/transmission/rpc'') js of
                  (_, Some err) \<Rightarrow> (([], Some err), s1)
                | (req, None) \<Rightarrow>
                    (case client_Do X
                            (req\<lparr>ReqHeader := Header_Add (ReqHeader req) ''X-Transmission-Session-Id'' sessId\<rparr>)
                            s1 of
                       (Inl err, s2) \<Rightarrow> (([], Some err), s2)
                     | (Inr resp, s2) \<Rightarrow> (ReadAll resp, s2)))))"

subsection \<open>The operations\<close>

definition Stats :: "'w extern \<Rightarrow> Conn \<Rightarrow> 'w world \<Rightarrow> (Statistics option \<times> error option) \<times> 'w world" where
  "Stats X c s =
     (case rpc X c (GMap [(''method'', GString ''session-stats'')]) s of
        ((_, Some err), s') \<Rightarrow> ((None, Some err), s')
      | ((b, None), s') \<Rightarrow>
          (case Unmarshal_sessionStats b zero_sessionStats of
             (_, Some err) \<Rightarrow> ((None, Some err), s')
           | (r, None) \<Rightarrow>
               if sessionStats.Result r \<noteq> ''success''
               then ((None, Some (errorString (''transmission: result: '' @ sessionStats.Result r))), s')
               else ((Some (sessionStats.Arguments r), None), s')))"

definition Add :: "'w extern \<Rightarrow> Conn \<Rightarrow> string \<Rightarrow> 'w world \<Rightarrow> (string \<times> error option) \<times> 'w world" where
  "Add X c link s =
     (case rpc X c
             (GMap [(''method'', GString ''torrent-add''),
                    (''arguments'', GMap [(''paused'', GBool False), (''filename'', GString link)])])
             s of
        ((_, Some err), s') \<Rightarrow> (([], Some err), s')
      | ((b, None), s') \<Rightarrow>
          (case Unmarshal_torrentAdd b zero_torrentAdd of
             (_, Some err) \<Rightarrow> (([], Some err), s')
           | (r, None) \<Rightarrow>
               if torrentAdd.Result r \<noteq> ''success''
               then (([], Some (errorString (''transmission: result: '' @ torrentAdd.Result r))), s')
               else if Name (TorrentAdded (torrentAdd.Arguments r)) = []
               then (([], Some (errorString ''transmission: empty result'')), s')
               else ((Name (TorrentAdded (torrentAdd.Arguments r)), None), s')))"

subsection \<open>A scripted remote side\<close>

text \<open>
  For concrete runs: a remote side that answers the requests it receives with the
  replies of a list, one after the other, and refuses the connection once the list is
  used up. Every URL is accepted.
\<close>

definition scripted :: "(string + response) list extern" where
  "scripted =
     \<lparr>url_Parse = (\<lambda>u. None),
      RoundTrip = (\<lambda>req w. case w of [] \<Rightarrow> (Inl ''connection refused'', []) | r # rs \<Rightarrow> (r, rs))\<rparr>"

definition conn0 :: Conn where
  "conn0 = \<lparr>url = ''https://seedbox.example:9091''\<rparr>"

definition world0 :: "(string + response) list \<Rightarrow> (string + response) list world" where
  "world0 replies = \<lparr>sent = [], remote = replies\<rparr>"

text \<open>The answer of Transmission to the probe: status 409 and the session ID in the header.\<close>

definition probe_reply :: "string \<Rightarrow> response" where
  "probe_reply tok =
     \<lparr>StatusCode = 409,
      Header = [''X-Transmission-Session-Id'' \<mapsto> [tok]],
      Body = ''409: Conflict'',
      BodyErr = None\<rparr>"

definition body_reply :: "string \<Rightarrow> response" where
  "body_reply b = \<lparr>StatusCode = 200, Header = Map.empty, Body = b, BodyErr = None\<rparr>"

text \<open>The requests of one call of \<open>rpc\<close>, for stating what it sends.\<close>

definition GET_request :: "Conn \<Rightarrow> request" where
  "GET_request c =
     \<lparr>Method = ''GET'', URL = url c @ ''/transmission/rpc'', ReqHeader = Map.empty, ReqBody = []\<rparr>"

definition POST_request :: "Conn \<Rightarrow> string \<Rightarrow> string \<Rightarrow> request" where
  "POST_request c tok b =
     \<lparr>Method = ''POST'', URL = url c @ ''/transmission/rpc'',
      ReqHeader = [''X-Transmission-Session-Id'' \<mapsto> [tok]], ReqBody = b\<rparr>"

text \<open>The keys of a text that is a JSON object.\<close>

definition object_keys :: "string \<Rightarrow> string list option" where
  "object_keys b = (case parse b of Some (JObject kvs) \<Rightarrow> Some (map fst kvs) | _ \<Rightarrow> None)"

definition has_key :: "string \<Rightarrow> string \<Rightarrow> bool" where
  "has_key b k = (case object_keys b of None \<Rightarrow> False | Some ks \<Rightarrow> k \<in> set ks)"

text \<open>The bytes that the scanner copies when it is inside a string literal.\<close>

definition plain :: "char \<Rightarrow> bool" where
  "plain x = (x \<noteq> CHR 0x22 \<and> x \<noteq> CHR 0x5C \<and> 0x20 \<le> byte x)"

section \<open>Properties\<close>

subsection \<open>Rendering statistics\<close>

text \<open>
  Division by 1024 never leaves the range of \<open>int\<close>, so the quotient that \<open>String\<close>
  prints is the quotient of the integers, truncated towards zero.
\<close>

lemma sdiv_1024_bounds:
  fixes k :: int
  assumes "- (2 ^ 63) \<le> k" "k < 2 ^ 63"
  shows "- (2 ^ 63) \<le> k sdiv 1024 \<and> k sdiv 1024 < 2 ^ 63"
proof (cases "0 \<le> k")
  case True
  then have "k sdiv 1024 = k div 1024"
    by (simp add: signed_divide_int_def sgn_if)
  moreover have "0 \<le> k div 1024" "k div 1024 \<le> k" using True by (simp_all add: pos_imp_zdiv_nonneg_iff zdiv_mono2 div_by_1)
  ultimately show ?thesis using assms by linarith
next
  case False
  then have "k sdiv 1024 = - ((- k) div 1024)"
    by (simp add: signed_divide_int_def sgn_if)
  moreover have "0 \<le> (- k) div 1024" "(- k) div 1024 \<le> - k" using False by (simp_all add: pos_imp_zdiv_nonneg_iff)
  ultimately show ?thesis using assms by linarith
qed

lemma sint_go_quo_1024: "sint (go_quo x 1024) = sint x sdiv 1024"
proof -
  have b: "- (2 ^ 63) \<le> sint x" "sint x < 2 ^ 63"
    using sint_ge [of x] sint_lt [of x] by simp_all
  have s: "sint (1024 :: go_int) = 1024" by simp
  from sdiv_1024_bounds [OF b] show ?thesis
    unfolding go_quo_def s
    by (simp add: sint_sbintrunc' signed_take_bit_int_eq_self)
qed

lemma digits10_digits: "list_all is_digit (digits10 n)"
proof (induction n rule: digits10.induct)
  case (1 n)
  show ?case
  proof (cases "n < 10")
    case True
    then show ?thesis by (subst digits10.simps) (simp add: is_digit_def digit_char_def)
  next
    case False
    have "n mod 10 < 10" by simp
    then have "is_digit (digit_char (n mod 10))" by (simp add: is_digit_def digit_char_def)
    with False 1 show ?thesis by (subst digits10.simps) simp
  qed
qed

lemma decimal_val_snoc: "decimal_val (ds @ [d]) = 10 * decimal_val ds + digit_val d"
  by (simp add: decimal_val_def)

lemma decimal_val_digits10: "decimal_val (digits10 n) = int n"
proof (induction n rule: digits10.induct)
  case (1 n)
  show ?case
  proof (cases "n < 10")
    case True
    then show ?thesis by (subst digits10.simps) (simp add: decimal_val_def digit_val_def digit_char_def)
  next
    case False
    have "n mod 10 < 10" by simp
    then have "digit_val (digit_char (n mod 10)) = int (n mod 10)" by (simp add: digit_val_def digit_char_def)
    moreover have "10 * int (n div 10) + int (n mod 10) = int n"
      by (simp add: zdiv_int zmod_int)
    ultimately show ?thesis using False 1 by (subst digits10.simps) (simp add: decimal_val_snoc)
  qed
qed


lemma sdiv_1024_nonneg: "0 \<le> k \<Longrightarrow> k sdiv 1024 = k div (1024 :: int)"
  by (simp add: signed_divide_int_def sgn_if)

text \<open>
  The digits that \<open>FormatInt\<close> prints read back as the number: for a number that is
  not negative they are decimal digits with that value, and a negative number is the
  minus sign before the digits of its absolute value.
\<close>

lemma FormatInt_nonneg: "FormatInt (int n) = digits10 n"
  by (simp add: FormatInt_def)

lemma FormatInt_neg: "FormatInt (- int (Suc n)) = CHR ''-'' # digits10 (Suc n)"
proof -
  have "nat (int n + 1) = Suc n" by simp
  then show ?thesis by (simp add: FormatInt_def)
qed

text \<open>
  C7. The rendering of a \<open>Statistics\<close> value prints the download and the upload speed
  as their integer quotient by 1024 (Go's \<open>/\<close>: the quotient of the integers, truncated
  towards zero, which is \<open>div\<close> for the speeds of the data model, none of them
  negative), followed by the three torrent counts; on the value with download speed
  1048576, upload speed 0 and the counts 3, 1 and 2 it is
  \<open>1024 KB/s DL, 0 KB/s UL, 3 torrents (1 active, 2 paused)\<close>.
\<close>

theorem Statistics_String:
  "String s =
     FormatInt (sint (DownloadSpeed s) sdiv 1024) @ '' KB/s DL, '' @
     FormatInt (sint (UploadSpeed s) sdiv 1024) @ '' KB/s UL, '' @
     FormatInt (sint (TorrentCount s)) @ '' torrents ('' @
     FormatInt (sint (ActiveTorrentCount s)) @ '' active, '' @
     FormatInt (sint (PausedTorrentcount s)) @ '' paused)''
   \<and> String \<lparr>DownloadSpeed = 1048576, UploadSpeed = 0, TorrentCount = 3,
               ActiveTorrentCount = 1, PausedTorrentcount = 2\<rparr>
       = ''1024 KB/s DL, 0 KB/s UL, 3 torrents (1 active, 2 paused)''"
proof
  show "String s =
     FormatInt (sint (DownloadSpeed s) sdiv 1024) @ '' KB/s DL, '' @
     FormatInt (sint (UploadSpeed s) sdiv 1024) @ '' KB/s UL, '' @
     FormatInt (sint (TorrentCount s)) @ '' torrents ('' @
     FormatInt (sint (ActiveTorrentCount s)) @ '' active, '' @
     FormatInt (sint (PausedTorrentcount s)) @ '' paused)''"
    by (simp add: String_def sint_go_quo_1024)
  show "String \<lparr>DownloadSpeed = 1048576, UploadSpeed = 0, TorrentCount = 3,
               ActiveTorrentCount = 1, PausedTorrentcount = 2\<rparr>
       = ''1024 KB/s DL, 0 KB/s UL, 3 torrents (1 active, 2 paused)''"
    by code_simp
qed

subsection \<open>The session probe\<close>

lemma client_Get_cases:
  "client_Get X u s =
     (case url_Parse X u of
        Some msg \<Rightarrow> (Inl (HTTPError msg), s)
      | None \<Rightarrow> client_Do X \<lparr>Method = ''GET'', URL = u, ReqHeader = Map.empty, ReqBody = []\<rparr> s)"
  by (simp add: client_Get_def NewRequest_def split: option.splits)


text \<open>
  C1, as the code has it. \<open>sessionId\<close> fails with its own error, \<open>sessionId not found\<close>,
  exactly when the probe was answered and the answer has no header
  \<open>X-Transmission-Session-Id\<close>, or has it with no value at all. In every other case it
  does not fail for this reason; a header whose value is the empty string is one of
  them.
\<close>

theorem sessionId_not_found_iff:
  "snd (fst (sessionId X c s)) = Some (errorString ''transmission: sessionId not found'') \<longleftrightarrow>
     (\<exists>resp s'. client_Get X (url c @ ''/transmission/rpc'') s = (Inr resp, s') \<and>
        (Header resp ''X-Transmission-Session-Id'' = None \<or>
         Header resp ''X-Transmission-Session-Id'' = Some []))"
proof (cases "client_Get X (url c @ ''/transmission/rpc'') s")
  case (Pair r s1)
  show ?thesis
  proof (cases r)
    case (Inl err)
    have "\<exists>msg. err = HTTPError msg"
      using Pair Inl
      by (auto simp: client_Get_cases client_Do_def split: option.splits prod.splits sum.splits)
    then show ?thesis using Pair Inl by (auto simp: sessionId_def)
  next
    case (Inr resp)
    then show ?thesis using Pair
      by (cases "Header resp ''X-Transmission-Session-Id''")
         (auto simp: sessionId_def split: list.splits)
  qed
qed


text \<open>
  The claim C1 as stated also promises the error for a header that is present with the
  empty string as its value. There the code returns the empty string and no error.
\<close>

theorem sessionId_empty_value_counterexample:
  "Header (probe_reply []) ''X-Transmission-Session-Id'' = Some [[]] \<and>
   fst (sessionId scripted conn0 (world0 [Inr (probe_reply [])])) = ([], None)"
  by (simp add: sessionId_def client_Get_cases client_Do_def scripted_def conn0_def world0_def probe_reply_def)


theorem sessionId_not_found_witness:
  "snd (fst (sessionId scripted conn0 (world0 [Inr (body_reply ''no header here'')])))
     = Some (errorString ''transmission: sessionId not found'')"
proof -
  have "client_Get scripted (url conn0 @ ''/transmission/rpc'') (world0 [Inr (body_reply ''no header here'')])
        = (Inr (body_reply ''no header here''),
           \<lparr>sent = [\<lparr>Method = ''GET'', URL = url conn0 @ ''/transmission/rpc'', ReqHeader = Map.empty, ReqBody = []\<rparr>], remote = []\<rparr>)"
    by (simp add: client_Get_cases client_Do_def scripted_def world0_def)
  moreover have "Header (body_reply ''no header here'') ''X-Transmission-Session-Id'' = None"
    by (simp add: body_reply_def)
  ultimately show ?thesis
    using sessionId_not_found_iff [of scripted conn0 "world0 [Inr (body_reply ''no header here'')]"]
    by blast
qed


text \<open>
  C2. When the answer to the probe carries the header \<open>X-Transmission-Session-Id\<close>
  with at least one value, \<open>sessionId\<close> returns the first value as it is in the
  answer, whatever its bytes are, and no error.
\<close>

theorem sessionId_verbatim:
  assumes "client_Get X (url c @ ''/transmission/rpc'') s = (Inr resp, s')"
    and "Header resp ''X-Transmission-Session-Id'' = Some (v # vs)"
  shows "sessionId X c s = ((v, None), s')"
  using assms by (simp add: sessionId_def)


theorem sessionId_verbatim_witness:
  "sessionId scripted conn0 (world0 [Inr (probe_reply ''  mIxEd Case+/= '')])
     = ((''  mIxEd Case+/= '', None), \<lparr>sent = [GET_request conn0], remote = []\<rparr>)"
proof -
  have g: "client_Get scripted (url conn0 @ ''/transmission/rpc'') (world0 [Inr (probe_reply ''  mIxEd Case+/= '')])
        = (Inr (probe_reply ''  mIxEd Case+/= ''), \<lparr>sent = [GET_request conn0], remote = []\<rparr>)"
    by (simp add: client_Get_cases client_Do_def scripted_def world0_def GET_request_def)
  have h: "Header (probe_reply ''  mIxEd Case+/= '') ''X-Transmission-Session-Id'' = Some (''  mIxEd Case+/= '' # [])"
    by (simp add: probe_reply_def)
  show ?thesis by (rule sessionId_verbatim [OF g h])
qed


subsection \<open>The transport\<close>

text \<open>
  What \<open>sessionId\<close> and \<open>rpc\<close> do, in terms of the libraries: the probe is one GET, sent
  unless the URL is refused; the call proper is one POST, sent once the probe has given
  a session ID.
\<close>

lemma sessionId_cases:
  "sessionId X c s =
     (case url_Parse X (url c @ ''/transmission/rpc'') of
        Some msg \<Rightarrow> (([], Some (HTTPError msg)), s)
      | None \<Rightarrow>
          (case RoundTrip X (GET_request c) (remote s) of
             (Inl msg, w1) \<Rightarrow>
               (([], Some (HTTPError msg)), \<lparr>sent = sent s @ [GET_request c], remote = w1\<rparr>)
           | (Inr resp, w1) \<Rightarrow>
               (case Header resp ''X-Transmission-Session-Id'' of
                  None \<Rightarrow> (([], Some (errorString ''transmission: sessionId not found'')),
                            \<lparr>sent = sent s @ [GET_request c], remote = w1\<rparr>)
                | Some [] \<Rightarrow> (([], Some (errorString ''transmission: sessionId not found'')),
                              \<lparr>sent = sent s @ [GET_request c], remote = w1\<rparr>)
                | Some (tok # vs) \<Rightarrow>
                    ((tok, None), \<lparr>sent = sent s @ [GET_request c], remote = w1\<rparr>))))"
  by (simp add: sessionId_def client_Get_cases client_Do_def GET_request_def
           split: option.splits prod.splits sum.splits list.splits)

lemma POST_request_eq:
  "\<lparr>Method = ''POST'', URL = url c @ ''/transmission/rpc'',
     ReqHeader = Header_Add Map.empty ''X-Transmission-Session-Id'' tok, ReqBody = b\<rparr>
   = POST_request c tok b"
  by (simp add: POST_request_def Header_Add_def)

lemma rpc_after_sessionId:
  assumes "url_Parse X (url c @ ''/transmission/rpc'') = None"
    and "sessionId X c s = ((tok, None), s1)"
  shows "rpc X c request s =
           (case RoundTrip X (POST_request c tok (encode request)) (remote s1) of
              (Inl msg, w2) \<Rightarrow>
                (([], Some (HTTPError msg)),
                 \<lparr>sent = sent s1 @ [POST_request c tok (encode request)], remote = w2\<rparr>)
            | (Inr resp2, w2) \<Rightarrow>
                (ReadAll resp2,
                 \<lparr>sent = sent s1 @ [POST_request c tok (encode request)], remote = w2\<rparr>))"
  using assms
  by (simp add: rpc_def Marshal_def NewRequest_def client_Do_def POST_request_eq
           split: prod.splits sum.splits)

lemma rpc_sessionId_error:
  assumes "sessionId X c s = ((v, Some err), s1)"
  shows "rpc X c request s = (([], Some err), s1)"
  using assms by (simp add: rpc_def)

lemma rpc_cases:
  "rpc X c request s =
     (case url_Parse X (url c @ ''/transmission/rpc'') of
        Some msg \<Rightarrow> (([], Some (HTTPError msg)), s)
      | None \<Rightarrow>
          (case RoundTrip X (GET_request c) (remote s) of
             (Inl msg, w1) \<Rightarrow>
               (([], Some (HTTPError msg)), \<lparr>sent = sent s @ [GET_request c], remote = w1\<rparr>)
           | (Inr resp, w1) \<Rightarrow>
               (case Header resp ''X-Transmission-Session-Id'' of
                  None \<Rightarrow> (([], Some (errorString ''transmission: sessionId not found'')),
                            \<lparr>sent = sent s @ [GET_request c], remote = w1\<rparr>)
                | Some [] \<Rightarrow> (([], Some (errorString ''transmission: sessionId not found'')),
                              \<lparr>sent = sent s @ [GET_request c], remote = w1\<rparr>)
                | Some (tok # vs) \<Rightarrow>
                    (case RoundTrip X (POST_request c tok (encode request)) w1 of
                       (Inl msg, w2) \<Rightarrow>
                         (([], Some (HTTPError msg)),
                          \<lparr>sent = sent s @ [GET_request c, POST_request c tok (encode request)], remote = w2\<rparr>)
                     | (Inr resp2, w2) \<Rightarrow>
                         (ReadAll resp2,
                          \<lparr>sent = sent s @ [GET_request c, POST_request c tok (encode request)], remote = w2\<rparr>)))))"
proof (cases "url_Parse X (url c @ ''/transmission/rpc'')")
  case (Some msg)
  then have "sessionId X c s = (([], Some (HTTPError msg)), s)"
    by (simp add: sessionId_cases)
  from rpc_sessionId_error [OF this] Some show ?thesis by simp
next
  case None
  obtain r w1 where rt: "RoundTrip X (GET_request c) (remote s) = (r, w1)"
    by (cases "RoundTrip X (GET_request c) (remote s)")
  show ?thesis
  proof (cases r)
    case (Inl msg)
    then have "sessionId X c s =
        (([], Some (HTTPError msg)), \<lparr>sent = sent s @ [GET_request c], remote = w1\<rparr>)"
      using None rt by (simp add: sessionId_cases)
    from rpc_sessionId_error [OF this] None rt Inl show ?thesis by simp
  next
    case (Inr resp)
    show ?thesis
    proof (cases "Header resp ''X-Transmission-Session-Id''")
      case hNone: None
      then have "sessionId X c s =
          (([], Some (errorString ''transmission: sessionId not found'')),
           \<lparr>sent = sent s @ [GET_request c], remote = w1\<rparr>)"
        using None rt Inr by (simp add: sessionId_cases)
      from rpc_sessionId_error [OF this] None rt Inr hNone show ?thesis by simp
    next
      case (Some vals)
      show ?thesis
      proof (cases vals)
        case Nil
        then have "sessionId X c s =
            (([], Some (errorString ''transmission: sessionId not found'')),
             \<lparr>sent = sent s @ [GET_request c], remote = w1\<rparr>)"
          using None rt Inr Some by (simp add: sessionId_cases)
        from rpc_sessionId_error [OF this] None rt Inr Some Nil show ?thesis by simp
      next
        case (Cons tok vs)
        then have "sessionId X c s =
            ((tok, None), \<lparr>sent = sent s @ [GET_request c], remote = w1\<rparr>)"
          using None rt Inr Some by (simp add: sessionId_cases)
        from rpc_after_sessionId [OF None this] None rt Inr Some Cons show ?thesis
          by (simp split: prod.splits sum.splits)
      qed
    qed
  qed
qed

lemma rpc_new_requests:
  "\<exists>new. sent (snd (rpc X c request s)) = sent s @ new \<and>
     (new = [] \<or> new = [GET_request c] \<or>
      (\<exists>tok. new = [GET_request c, POST_request c tok (encode request)]))"
  by (auto simp: rpc_cases split: option.splits prod.splits sum.splits list.splits)

lemma new_POST_body:
  assumes "sent s' = sent s @ new"
    and "new = [] \<or> new = [GET_request c] \<or> (\<exists>tok. new = [GET_request c, POST_request c tok b])"
    and "q \<in> set (drop (length (sent s)) (sent s'))" and "Method q = ''POST''"
  shows "ReqBody q = b"
proof -
  from assms(1,3) have "q \<in> set new" by simp
  with assms(2,4) show ?thesis
    by (auto simp: GET_request_def POST_request_def)
qed

lemma sent_Add:
  "sent (snd (Add X c link s)) =
   sent (snd (rpc X c (GMap [(''method'', GString ''torrent-add''),
                             (''arguments'', GMap [(''paused'', GBool False), (''filename'', GString link)])]) s))"
  by (simp add: Add_def split: prod.splits option.splits)

lemma sent_Stats:
  "sent (snd (Stats X c s)) = sent (snd (rpc X c (GMap [(''method'', GString ''session-stats'')]) s))"
  by (simp add: Stats_def split: prod.splits option.splits)

lemma Add_rpc:
  assumes "Add X c link s = (res, s')"
  shows "\<exists>r. rpc X c (GMap [(''method'', GString ''torrent-add''),
                             (''arguments'', GMap [(''paused'', GBool False), (''filename'', GString link)])]) s
              = (r, s') \<and> (snd r \<noteq> None \<longrightarrow> snd res \<noteq> None)"
  using assms by (auto simp: Add_def split: prod.splits option.splits if_splits)

text \<open>
  C3. Every invocation of \<open>rpc\<close> fetches a session ID within that invocation, before
  the POST, and the POST carries exactly that ID in its header
  \<open>X-Transmission-Session-Id\<close>. Stated on the requests handed to the HTTP client: when
  the answer to the GET of this invocation, given in the present state of the remote side,
  carries a session ID, the invocation sends that GET and then one POST whose only header
  is that ID; otherwise it sends no POST at all and fails. \<open>Conn\<close> has no field that
  could keep an ID from one call to the next.
\<close>

theorem rpc_fresh_token:
  assumes "rpc X c request s = (res, s')"
  shows "(\<exists>tok vs resp w1.
            url_Parse X (url c @ ''/transmission/rpc'') = None \<and>
            RoundTrip X (GET_request c) (remote s) = (Inr resp, w1) \<and>
            Header resp ''X-Transmission-Session-Id'' = Some (tok # vs) \<and>
            sent s' = sent s @ [GET_request c, POST_request c tok (encode request)])
       \<or> (snd res \<noteq> None \<and>
           (sent s' = sent s \<or> sent s' = sent s @ [GET_request c]) \<and>
           \<not> (\<exists>tok vs resp w1.
                 url_Parse X (url c @ ''/transmission/rpc'') = None \<and>
                 RoundTrip X (GET_request c) (remote s) = (Inr resp, w1) \<and>
                 Header resp ''X-Transmission-Session-Id'' = Some (tok # vs)))"
proof (cases "url_Parse X (url c @ ''/transmission/rpc'')")
  case (Some msg)
  with assms show ?thesis by (auto simp: rpc_cases)
next
  case None
  obtain r w1 where rt: "RoundTrip X (GET_request c) (remote s) = (r, w1)"
    by (cases "RoundTrip X (GET_request c) (remote s)")
  show ?thesis
  proof (cases r)
    case (Inl msg)
    with assms None rt show ?thesis by (auto simp: rpc_cases)
  next
    case (Inr resp)
    show ?thesis
    proof (cases "Header resp ''X-Transmission-Session-Id''")
      case no_header: None
      with assms None rt Inr show ?thesis by (auto simp: rpc_cases)
    next
      case (Some vals)
      show ?thesis
      proof (cases vals)
        case Nil
        with assms None rt Inr Some show ?thesis by (auto simp: rpc_cases)
      next
        case (Cons tok vs)
        with assms None rt Inr Some
        have "sent s' = sent s @ [GET_request c, POST_request c tok (encode request)]"
          by (auto simp: rpc_cases split: prod.splits sum.splits)
        with None rt Inr Some Cons show ?thesis by blast
      qed
    qed
  qed
qed

text \<open>
  Two calls in a row against a remote side that hands out \<open>sid-1\<close> and then \<open>sid-2\<close>:
  the second POST carries \<open>sid-2\<close>.
\<close>

theorem rpc_fresh_token_witness:
  "sent (snd (rpc scripted conn0 (GMap [(''method'', GString ''session-stats'')])
                \<lparr>sent = [GET_request conn0,
                         POST_request conn0 ''sid-1'' (encode (GMap [(''method'', GString ''session-stats'')]))],
                 remote = [Inr (probe_reply ''sid-2''), Inr (body_reply ''{}'')]\<rparr>))
   = [GET_request conn0,
      POST_request conn0 ''sid-1'' (encode (GMap [(''method'', GString ''session-stats'')])),
      GET_request conn0,
      POST_request conn0 ''sid-2'' (encode (GMap [(''method'', GString ''session-stats'')]))]"
proof -
  let ?R = "GMap [(''method'', GString ''session-stats'')]"
  let ?W = "\<lparr>sent = [GET_request conn0, POST_request conn0 ''sid-1'' (encode ?R)],
             remote = [Inr (probe_reply ''sid-2''), Inr (body_reply ''{}'')]\<rparr>"
  obtain res s' where h: "rpc scripted conn0 ?R ?W = (res, s')"
    by (cases "rpc scripted conn0 ?R ?W")
  have p: "url_Parse scripted (url conn0 @ ''/transmission/rpc'') = None"
    by (simp add: scripted_def)
  have rt: "RoundTrip scripted (GET_request conn0) (remote ?W)
            = (Inr (probe_reply ''sid-2''), [Inr (body_reply ''{}'')])"
    by (simp add: scripted_def)
  have hd: "Header (probe_reply ''sid-2'') ''X-Transmission-Session-Id'' = Some [''sid-2'']"
    by (simp add: probe_reply_def)
  from rpc_fresh_token [OF h] p rt hd
  have "sent s' = sent ?W @ [GET_request conn0, POST_request conn0 ''sid-2'' (encode ?R)]"
    by auto
  with h show ?thesis by simp
qed

subsection \<open>Decoding the bodies of the specification\<close>

text \<open>The scanner, the grammar and the decoder, run on the response bodies that the claims name.\<close>

lemmas lex_eval =
  is_space_def byte_def is_digit_def punct_def emit_def num_char_def is_hex_def
  valid_number_def valid_frac_def valid_exp_def

lemmas run_eval =
  step_def begin_value_def begin_key_def push_def deliver_def maxNestingDepth_def

lemma char_eq_char_of_iff: "c = char_of n \<longleftrightarrow> take_bit 8 n = (of_char c :: nat)"
  using char_of_eq_iff [of n c] by auto

lemmas decode_eval =
  value_sessionStats_def value_Statistics_def
  value_torrentAdd_def value_torrentAddedArguments_def value_torrentAdded_def
  field_match_def byte_def store_string_def store_int_def saveError_def kind_def ParseInt_def
  zero_sessionStats_def zero_Statistics_def zero_torrentAdd_def
  is_digit_def decimal_val_def digit_val_def char_of_eq_iff char_eq_char_of_iff

lemma lex_failure_body:
  \<open>lex Top ''{"result":"failure","arguments":{}}'' =
     Some [TLBrace, TStr ''result'', TColon, TStr ''failure'', TComma,
           TStr ''arguments'', TColon, TLBrace, TRBrace, TRBrace]\<close>
  by (simp add: lex.simps lex_eval)

lemma parse_failure_body:
  \<open>parse ''{"result":"failure","arguments":{}}'' =
     Some (JObject [(''result'', JString ''failure''), (''arguments'', JObject [])])\<close>
  unfolding parse_def lex_failure_body by (simp add: run_eval)

lemma Unmarshal_failure_body:
  \<open>Unmarshal_sessionStats ''{"result":"failure","arguments":{}}'' zero_sessionStats
     = (\<lparr>sessionStats.Arguments = zero_Statistics, sessionStats.Result = ''failure''\<rparr>, None)\<close>
  unfolding Unmarshal_sessionStats_def parse_failure_body by (simp add: decode_eval)

lemma lex_added_body:
  \<open>lex Top ''{"result":"success","arguments":{"torrent-added":{"Id":1,"Name":"Ubuntu.iso","HashString":"abc123"}}}'' =
     Some [TLBrace, TStr ''result'', TColon, TStr ''success'', TComma,
           TStr ''arguments'', TColon, TLBrace, TStr ''torrent-added'', TColon, TLBrace,
           TStr ''Id'', TColon, TNum ''1'', TComma, TStr ''Name'', TColon, TStr ''Ubuntu.iso'', TComma,
           TStr ''HashString'', TColon, TStr ''abc123'', TRBrace, TRBrace, TRBrace]\<close>
  by (simp add: lex.simps lex_eval)

lemma parse_added_body:
  \<open>parse ''{"result":"success","arguments":{"torrent-added":{"Id":1,"Name":"Ubuntu.iso","HashString":"abc123"}}}'' =
     Some (JObject
       [(''result'', JString ''success''),
        (''arguments'',
         JObject [(''torrent-added'',
                   JObject [(''Id'', JNumber ''1''), (''Name'', JString ''Ubuntu.iso''),
                            (''HashString'', JString ''abc123'')])])])\<close>
  unfolding parse_def lex_added_body by (simp add: run_eval)

lemma Unmarshal_added_body:
  \<open>Unmarshal_torrentAdd
      ''{"result":"success","arguments":{"torrent-added":{"Id":1,"Name":"Ubuntu.iso","HashString":"abc123"}}}''
      zero_torrentAdd
     = (\<lparr>torrentAdd.Arguments = \<lparr>TorrentAdded = \<lparr>Id' = 1, Name = ''Ubuntu.iso'', HashString = ''abc123''\<rparr>\<rparr>,
         torrentAdd.Result = ''success''\<rparr>, None)\<close>
  unfolding Unmarshal_torrentAdd_def parse_added_body by (simp add: decode_eval)

lemma lex_empty_name_body:
  \<open>lex Top ''{"result":"success","arguments":{"torrent-added":{"Id":1,"Name":"","HashString":""}}}'' =
     Some [TLBrace, TStr ''result'', TColon, TStr ''success'', TComma,
           TStr ''arguments'', TColon, TLBrace, TStr ''torrent-added'', TColon, TLBrace,
           TStr ''Id'', TColon, TNum ''1'', TComma, TStr ''Name'', TColon, TStr [], TComma,
           TStr ''HashString'', TColon, TStr [], TRBrace, TRBrace, TRBrace]\<close>
  by (simp add: lex.simps lex_eval)

lemma parse_empty_name_body:
  \<open>parse ''{"result":"success","arguments":{"torrent-added":{"Id":1,"Name":"","HashString":""}}}'' =
     Some (JObject
       [(''result'', JString ''success''),
        (''arguments'',
         JObject [(''torrent-added'',
                   JObject [(''Id'', JNumber ''1''), (''Name'', JString []),
                            (''HashString'', JString [])])])])\<close>
  unfolding parse_def lex_empty_name_body by (simp add: run_eval)

lemma Unmarshal_empty_name_body:
  \<open>Unmarshal_torrentAdd
      ''{"result":"success","arguments":{"torrent-added":{"Id":1,"Name":"","HashString":""}}}''
      zero_torrentAdd
     = (\<lparr>torrentAdd.Arguments = \<lparr>TorrentAdded = \<lparr>Id' = 1, Name = [], HashString = []\<rparr>\<rparr>,
         torrentAdd.Result = ''success''\<rparr>, None)\<close>
  unfolding Unmarshal_torrentAdd_def parse_empty_name_body by (simp add: decode_eval)

text \<open>A body as Transmission sends it: the keys differ from the field names in case only.\<close>

lemma lex_stats_body:
  \<open>lex Top ''{"arguments":{"activeTorrentCount":1,"downloadSpeed":1048576,"pausedTorrentCount":2,"torrentCount":3,"uploadSpeed":0},"result":"success"}'' =
     Some [TLBrace, TStr ''arguments'', TColon, TLBrace,
           TStr ''activeTorrentCount'', TColon, TNum ''1'', TComma,
           TStr ''downloadSpeed'', TColon, TNum ''1048576'', TComma,
           TStr ''pausedTorrentCount'', TColon, TNum ''2'', TComma,
           TStr ''torrentCount'', TColon, TNum ''3'', TComma,
           TStr ''uploadSpeed'', TColon, TNum ''0'', TRBrace, TComma,
           TStr ''result'', TColon, TStr ''success'', TRBrace]\<close>
  by (simp add: lex.simps lex_eval)

lemma parse_stats_body:
  \<open>parse ''{"arguments":{"activeTorrentCount":1,"downloadSpeed":1048576,"pausedTorrentCount":2,"torrentCount":3,"uploadSpeed":0},"result":"success"}'' =
     Some (JObject
       [(''arguments'',
         JObject [(''activeTorrentCount'', JNumber ''1''), (''downloadSpeed'', JNumber ''1048576''),
                  (''pausedTorrentCount'', JNumber ''2''), (''torrentCount'', JNumber ''3''),
                  (''uploadSpeed'', JNumber ''0'')]),
        (''result'', JString ''success'')])\<close>
  unfolding parse_def lex_stats_body by (simp add: run_eval)

lemma Unmarshal_stats_body:
  \<open>Unmarshal_sessionStats
      ''{"arguments":{"activeTorrentCount":1,"downloadSpeed":1048576,"pausedTorrentCount":2,"torrentCount":3,"uploadSpeed":0},"result":"success"}''
      zero_sessionStats
     = (\<lparr>sessionStats.Arguments =
           \<lparr>DownloadSpeed = 1048576, UploadSpeed = 0, TorrentCount = 3,
              ActiveTorrentCount = 1, PausedTorrentcount = 2\<rparr>,
         sessionStats.Result = ''success''\<rparr>, None)\<close>
  unfolding Unmarshal_sessionStats_def parse_stats_body by (simp add: decode_eval)

text \<open>Runs of \<open>rpc\<close>, \<open>Add\<close> and \<open>Stats\<close> against the scripted remote side.\<close>

lemma rpc_failure_example:
  \<open>rpc scripted conn0 (GMap [(''method'', GString ''session-stats'')])
      (world0 [Inr (probe_reply ''sid''), Inr (body_reply ''{"result":"failure","arguments":{}}'')])
    = ((''{"result":"failure","arguments":{}}'', None),
       \<lparr>sent = [GET_request conn0,
                POST_request conn0 ''sid'' (encode (GMap [(''method'', GString ''session-stats'')]))],
        remote = []\<rparr>)\<close>
  by (simp add: rpc_cases scripted_def world0_def probe_reply_def body_reply_def ReadAll_def)

lemma rpc_added_example:
  \<open>rpc scripted conn0
      (GMap [(''method'', GString ''torrent-add''),
             (''arguments'', GMap [(''paused'', GBool False),
                                   (''filename'', GString ''magnet:?xt=urn:btih:abc123'')])])
      (world0 [Inr (probe_reply ''sid''),
               Inr (body_reply ''{"result":"success","arguments":{"torrent-added":{"Id":1,"Name":"Ubuntu.iso","HashString":"abc123"}}}'')])
    = ((''{"result":"success","arguments":{"torrent-added":{"Id":1,"Name":"Ubuntu.iso","HashString":"abc123"}}}'', None),
       \<lparr>sent = [GET_request conn0,
                POST_request conn0 ''sid''
                  (encode (GMap [(''method'', GString ''torrent-add''),
                                 (''arguments'', GMap [(''paused'', GBool False),
                                                       (''filename'', GString ''magnet:?xt=urn:btih:abc123'')])]))],
        remote = []\<rparr>)\<close>
  by (simp add: rpc_cases scripted_def world0_def probe_reply_def body_reply_def ReadAll_def)

lemma rpc_empty_name_example:
  \<open>rpc scripted conn0
      (GMap [(''method'', GString ''torrent-add''),
             (''arguments'', GMap [(''paused'', GBool False),
                                   (''filename'', GString ''magnet:?xt=urn:btih:abc123'')])])
      (world0 [Inr (probe_reply ''sid''),
               Inr (body_reply ''{"result":"success","arguments":{"torrent-added":{"Id":1,"Name":"","HashString":""}}}'')])
    = ((''{"result":"success","arguments":{"torrent-added":{"Id":1,"Name":"","HashString":""}}}'', None),
       \<lparr>sent = [GET_request conn0,
                POST_request conn0 ''sid''
                  (encode (GMap [(''method'', GString ''torrent-add''),
                                 (''arguments'', GMap [(''paused'', GBool False),
                                                       (''filename'', GString ''magnet:?xt=urn:btih:abc123'')])]))],
        remote = []\<rparr>)\<close>
  by (simp add: rpc_cases scripted_def world0_def probe_reply_def body_reply_def ReadAll_def)

lemma Add_added_example:
  \<open>Add scripted conn0 ''magnet:?xt=urn:btih:abc123''
      (world0 [Inr (probe_reply ''sid''),
               Inr (body_reply ''{"result":"success","arguments":{"torrent-added":{"Id":1,"Name":"Ubuntu.iso","HashString":"abc123"}}}'')])
   = ((''Ubuntu.iso'', None),
      \<lparr>sent = [GET_request conn0,
               POST_request conn0 ''sid''
                 (encode (GMap [(''method'', GString ''torrent-add''),
                                (''arguments'', GMap [(''paused'', GBool False),
                                                      (''filename'', GString ''magnet:?xt=urn:btih:abc123'')])]))],
       remote = []\<rparr>)\<close>
  unfolding Add_def rpc_added_example prod.case option.case Unmarshal_added_body by simp

lemma rpc_stats_example:
  \<open>rpc scripted conn0 (GMap [(''method'', GString ''session-stats'')])
      (world0 [Inr (probe_reply ''sid''),
               Inr (body_reply ''{"arguments":{"activeTorrentCount":1,"downloadSpeed":1048576,"pausedTorrentCount":2,"torrentCount":3,"uploadSpeed":0},"result":"success"}'')])
    = ((''{"arguments":{"activeTorrentCount":1,"downloadSpeed":1048576,"pausedTorrentCount":2,"torrentCount":3,"uploadSpeed":0},"result":"success"}'', None),
       \<lparr>sent = [GET_request conn0,
                POST_request conn0 ''sid'' (encode (GMap [(''method'', GString ''session-stats'')]))],
        remote = []\<rparr>)\<close>
  by (simp add: rpc_cases scripted_def world0_def probe_reply_def body_reply_def ReadAll_def)

lemma Stats_success_example:
  \<open>fst (Stats scripted conn0
      (world0 [Inr (probe_reply ''sid''),
               Inr (body_reply ''{"arguments":{"activeTorrentCount":1,"downloadSpeed":1048576,"pausedTorrentCount":2,"torrentCount":3,"uploadSpeed":0},"result":"success"}'')]))
   = (Some \<lparr>DownloadSpeed = 1048576, UploadSpeed = 0, TorrentCount = 3,
             ActiveTorrentCount = 1, PausedTorrentcount = 2\<rparr>, None)\<close>
  unfolding Stats_def rpc_stats_example prod.case option.case Unmarshal_stats_body by simp

text \<open>
  What the decoder makes of an envelope whose members are the result and the five
  statistics: a number written in decimal is read back as the number, and a key names
  a field whatever its case.
\<close>

lemma digits10_nonempty: "digits10 n \<noteq> []"
  by (subst digits10.simps) simp

lemma is_digit_not_minus: "is_digit ch \<Longrightarrow> ch \<noteq> CHR ''-''"
  by (auto simp: is_digit_def)

lemma ParseInt_digits10:
  assumes "int n < 9223372036854775808"
  shows "ParseInt (digits10 n) = Some (word_of_int (int n))"
proof -
  obtain d ds where e: "digits10 n = d # ds"
    using digits10_nonempty [of n] by (cases "digits10 n") auto
  have "list_all is_digit (d # ds)" using digits10_digits [of n] by (simp only: e)
  then have "d \<noteq> CHR ''-''" using is_digit_not_minus by simp
  moreover have "decimal_val (d # ds) = int n" using decimal_val_digits10 [of n] by (simp only: e)
  ultimately show ?thesis
    using assms \<open>list_all is_digit (d # ds)\<close>
    by (simp add: ParseInt_def e Let_def)
qed

lemma ParseInt_minus_digits10:
  assumes "int n \<le> 9223372036854775808"
  shows "ParseInt (CHR ''-'' # digits10 n) = Some (word_of_int (- int n))"
  using assms digits10_nonempty [of n] digits10_digits [of n] decimal_val_digits10 [of n]
  by (simp add: ParseInt_def Let_def)

lemma ParseInt_FormatInt:
  assumes "- 9223372036854775808 \<le> i" and "i < 9223372036854775808"
  shows "ParseInt (FormatInt i) = Some (word_of_int i)"
proof (cases "i < 0")
  case True
  then have "int (nat (- i)) = - i" by simp
  moreover have "int (nat (- i)) \<le> 9223372036854775808" using assms True by simp
  ultimately show ?thesis
    using True ParseInt_minus_digits10 [of "nat (- i)"] by (simp add: FormatInt_def)
next
  case False
  then have "int (nat i) = i" by simp
  moreover have "int (nat i) < 9223372036854775808" using assms False by simp
  ultimately show ?thesis
    using False ParseInt_digits10 [of "nat i"] by (simp add: FormatInt_def)
qed

lemma ParseInt_FormatInt_sint: "ParseInt (FormatInt (sint (w :: go_int))) = Some w"
proof -
  have "- 9223372036854775808 \<le> sint w" "sint w < 9223372036854775808"
    using sint_ge [of w] sint_lt [of w] by simp_all
  from ParseInt_FormatInt [OF this] show ?thesis by simp
qed

lemma store_int_FormatInt: "store_int (JNumber (FormatInt (sint (w :: go_int)))) old e = (w, e)"
  by (simp add: store_int_def ParseInt_FormatInt_sint)

lemma foldName_fields:
  "foldName ''DownloadSpeed'' = ''DOWNLOADSPEED''"
  "foldName ''UploadSpeed'' = ''UPLOADSPEED''"
  "foldName ''TorrentCount'' = ''TORRENTCOUNT''"
  "foldName ''ActiveTorrentCount'' = ''ACTIVETORRENTCOUNT''"
  "foldName ''PausedTorrentcount'' = ''PAUSEDTORRENTCOUNT''"
  "foldName ''Arguments'' = ''ARGUMENTS''"
  "foldName ''Result'' = ''RESULT''"
  by (simp_all add: byte_def char_of_eq_iff)

lemma field_match_fields:
  "field_match ''DownloadSpeed'' k \<longleftrightarrow> foldName k = ''DOWNLOADSPEED''"
  "field_match ''UploadSpeed'' k \<longleftrightarrow> foldName k = ''UPLOADSPEED''"
  "field_match ''TorrentCount'' k \<longleftrightarrow> foldName k = ''TORRENTCOUNT''"
  "field_match ''ActiveTorrentCount'' k \<longleftrightarrow> foldName k = ''ACTIVETORRENTCOUNT''"
  "field_match ''PausedTorrentcount'' k \<longleftrightarrow> foldName k = ''PAUSEDTORRENTCOUNT''"
  "field_match ''Arguments'' k \<longleftrightarrow> foldName k = ''ARGUMENTS''"
  "field_match ''Result'' k \<longleftrightarrow> foldName k = ''RESULT''"
  unfolding field_match_def foldName_fields by (rule refl)+

lemma object_Statistics_fields:
  assumes "field_match ''DownloadSpeed'' k1" and "field_match ''UploadSpeed'' k2"
    and "field_match ''TorrentCount'' k3" and "field_match ''ActiveTorrentCount'' k4"
    and "field_match ''PausedTorrentcount'' k5"
  shows "object_Statistics
           [(k1, JNumber (FormatInt (sint d))), (k2, JNumber (FormatInt (sint u))),
            (k3, JNumber (FormatInt (sint t))), (k4, JNumber (FormatInt (sint a))),
            (k5, JNumber (FormatInt (sint p)))] st e
         = (\<lparr>DownloadSpeed = d, UploadSpeed = u, TorrentCount = t,
              ActiveTorrentCount = a, PausedTorrentcount = p\<rparr>, e)"
  using assms unfolding field_match_fields
  by (simp add: field_match_fields store_int_FormatInt del: foldName.simps)

lemma value_sessionStats_success:
  assumes "field_match ''Result'' kr" and "field_match ''Arguments'' ka"
    and "field_match ''DownloadSpeed'' k1" and "field_match ''UploadSpeed'' k2"
    and "field_match ''TorrentCount'' k3" and "field_match ''ActiveTorrentCount'' k4"
    and "field_match ''PausedTorrentcount'' k5"
  shows "value_sessionStats
           (JObject [(kr, JString res),
                     (ka, JObject
                       [(k1, JNumber (FormatInt (sint d))), (k2, JNumber (FormatInt (sint u))),
                        (k3, JNumber (FormatInt (sint t))), (k4, JNumber (FormatInt (sint a))),
                        (k5, JNumber (FormatInt (sint p)))])]) r0 None
         = (\<lparr>sessionStats.Arguments =
               \<lparr>DownloadSpeed = d, UploadSpeed = u, TorrentCount = t,
                  ActiveTorrentCount = a, PausedTorrentcount = p\<rparr>,
             sessionStats.Result = res\<rparr>, None)"
  using assms(1,2) object_Statistics_fields [OF assms(3-7)] unfolding field_match_fields
  by (simp add: value_sessionStats_def value_Statistics_def store_string_def field_match_fields
           del: foldName.simps)

lemma lex_populated_body:
  \<open>lex Top ''{"result":"success","arguments":{"DownloadSpeed":1048576,"UploadSpeed":0,"TorrentCount":3,"ActiveTorrentCount":1,"PausedTorrentCount":2}}'' =
     Some [TLBrace, TStr ''result'', TColon, TStr ''success'', TComma,
           TStr ''arguments'', TColon, TLBrace,
           TStr ''DownloadSpeed'', TColon, TNum ''1048576'', TComma,
           TStr ''UploadSpeed'', TColon, TNum ''0'', TComma,
           TStr ''TorrentCount'', TColon, TNum ''3'', TComma,
           TStr ''ActiveTorrentCount'', TColon, TNum ''1'', TComma,
           TStr ''PausedTorrentCount'', TColon, TNum ''2'', TRBrace, TRBrace]\<close>
  by (simp add: lex.simps lex_eval)

lemma parse_populated_body:
  \<open>parse ''{"result":"success","arguments":{"DownloadSpeed":1048576,"UploadSpeed":0,"TorrentCount":3,"ActiveTorrentCount":1,"PausedTorrentCount":2}}'' =
     Some (JObject
       [(''result'', JString ''success''),
        (''arguments'',
         JObject [(''DownloadSpeed'', JNumber ''1048576''), (''UploadSpeed'', JNumber ''0''),
                  (''TorrentCount'', JNumber ''3''), (''ActiveTorrentCount'', JNumber ''1''),
                  (''PausedTorrentCount'', JNumber ''2'')])])\<close>
  unfolding parse_def lex_populated_body by (simp add: run_eval)

lemma FormatInt_examples:
  "FormatInt (sint (1048576 :: go_int)) = ''1048576''"
  "FormatInt (sint (0 :: go_int)) = ''0''"
  "FormatInt (sint (3 :: go_int)) = ''3''"
  "FormatInt (sint (1 :: go_int)) = ''1''"
  "FormatInt (sint (2 :: go_int)) = ''2''"
  by (simp_all add: FormatInt_def digits10.simps digit_char_def char_of_eq_iff)

lemma field_match_examples:
  "field_match ''Result'' ''result''" "field_match ''Arguments'' ''arguments''"
  "field_match ''DownloadSpeed'' ''DownloadSpeed''" "field_match ''UploadSpeed'' ''UploadSpeed''"
  "field_match ''TorrentCount'' ''TorrentCount''" "field_match ''ActiveTorrentCount'' ''ActiveTorrentCount''"
  "field_match ''PausedTorrentcount'' ''PausedTorrentCount''"
  unfolding field_match_fields by (simp_all add: byte_def char_of_eq_iff)

lemma rpc_populated_example:
  \<open>rpc scripted conn0 (GMap [(''method'', GString ''session-stats'')])
      (world0 [Inr (probe_reply ''sid''),
               Inr (body_reply ''{"result":"success","arguments":{"DownloadSpeed":1048576,"UploadSpeed":0,"TorrentCount":3,"ActiveTorrentCount":1,"PausedTorrentCount":2}}'')])
    = ((''{"result":"success","arguments":{"DownloadSpeed":1048576,"UploadSpeed":0,"TorrentCount":3,"ActiveTorrentCount":1,"PausedTorrentCount":2}}'', None),
       \<lparr>sent = [GET_request conn0,
                POST_request conn0 ''sid'' (encode (GMap [(''method'', GString ''session-stats'')]))],
        remote = []\<rparr>)\<close>
  by (simp add: rpc_cases scripted_def world0_def probe_reply_def body_reply_def ReadAll_def)

subsection \<open>The operations\<close>

text \<open>
  C4. Once the transport has returned a body that decodes, \<open>Stats\<close> returns the decoded
  \<open>Statistics\<close> and no error when the decoded \<open>Result\<close> is \<open>success\<close>, and otherwise
  fails with the error whose message is \<open>transmission: result: \<close> followed by the
  \<open>Result\<close> string as the remote side gave it; on the body
  \<open>{"result":"failure","arguments":{}}\<close> the error is \<open>transmission: result: failure\<close>.
  The decoded \<open>Statistics\<close> are those of the body: for every envelope whose members
  are a result string and the arguments with the five statistics, under keys that name
  the fields in any case, \<open>Stats\<close> returns exactly these five numbers when the result is
  \<open>success\<close>, and the error with the result string otherwise; so it does on a body as
  Transmission sends it.
\<close>

theorem Stats_result:
  assumes "rpc X c (GMap [(''method'', GString ''session-stats'')]) s = ((b, None), s')"
  shows \<open>(\<forall>r. Unmarshal_sessionStats b zero_sessionStats = (r, None) \<longrightarrow>
            Stats X c s =
              (if sessionStats.Result r = ''success''
               then ((Some (sessionStats.Arguments r), None), s')
               else ((None, Some (errorString (''transmission: result: '' @ sessionStats.Result r))), s')))
       \<and> (b = ''{"result":"failure","arguments":{}}'' \<longrightarrow>
            Stats X c s = ((None, Some (errorString ''transmission: result: failure'')), s'))
       \<and> (\<forall>kr ka kd ku kt kn kp res (d :: go_int) (u :: go_int) (t :: go_int) (a :: go_int) (p :: go_int).
            field_match ''Result'' kr \<and> field_match ''Arguments'' ka \<and>
            field_match ''DownloadSpeed'' kd \<and> field_match ''UploadSpeed'' ku \<and>
            field_match ''TorrentCount'' kt \<and> field_match ''ActiveTorrentCount'' kn \<and>
            field_match ''PausedTorrentcount'' kp \<and>
            parse b = Some (JObject
              [(kr, JString res),
               (ka, JObject
                 [(kd, JNumber (FormatInt (sint d))), (ku, JNumber (FormatInt (sint u))),
                  (kt, JNumber (FormatInt (sint t))), (kn, JNumber (FormatInt (sint a))),
                  (kp, JNumber (FormatInt (sint p)))])]) \<longrightarrow>
            Stats X c s =
              (if res = ''success''
               then ((Some \<lparr>DownloadSpeed = d, UploadSpeed = u, TorrentCount = t,
                             ActiveTorrentCount = a, PausedTorrentcount = p\<rparr>, None), s')
               else ((None, Some (errorString (''transmission: result: '' @ res))), s')))
       \<and> (b = ''{"arguments":{"activeTorrentCount":1,"downloadSpeed":1048576,"pausedTorrentCount":2,"torrentCount":3,"uploadSpeed":0},"result":"success"}'' \<longrightarrow>
            Stats X c s =
              ((Some \<lparr>DownloadSpeed = 1048576, UploadSpeed = 0, TorrentCount = 3,
                       ActiveTorrentCount = 1, PausedTorrentcount = 2\<rparr>, None), s'))\<close>
proof (intro conjI allI impI)
  fix r
  assume "Unmarshal_sessionStats b zero_sessionStats = (r, None)"
  with assms show "Stats X c s =
              (if sessionStats.Result r = ''success''
               then ((Some (sessionStats.Arguments r), None), s')
               else ((None, Some (errorString (''transmission: result: '' @ sessionStats.Result r))), s'))"
    by (simp add: Stats_def)
next
  assume bdef: \<open>b = ''{"result":"failure","arguments":{}}''\<close>
  have "Unmarshal_sessionStats b zero_sessionStats
     = (\<lparr>sessionStats.Arguments = zero_Statistics, sessionStats.Result = ''failure''\<rparr>, None)"
    unfolding bdef by (rule Unmarshal_failure_body)
  with assms show "Stats X c s = ((None, Some (errorString ''transmission: result: failure'')), s')"
    by (simp add: Stats_def)
next
  fix kr ka kd ku kt kn kp res and d u t a p :: go_int
  assume h: "field_match ''Result'' kr \<and> field_match ''Arguments'' ka \<and>
            field_match ''DownloadSpeed'' kd \<and> field_match ''UploadSpeed'' ku \<and>
            field_match ''TorrentCount'' kt \<and> field_match ''ActiveTorrentCount'' kn \<and>
            field_match ''PausedTorrentcount'' kp \<and>
            parse b = Some (JObject
              [(kr, JString res),
               (ka, JObject
                 [(kd, JNumber (FormatInt (sint d))), (ku, JNumber (FormatInt (sint u))),
                  (kt, JNumber (FormatInt (sint t))), (kn, JNumber (FormatInt (sint a))),
                  (kp, JNumber (FormatInt (sint p)))])])"
  then have m: "field_match ''Result'' kr" "field_match ''Arguments'' ka"
      "field_match ''DownloadSpeed'' kd" "field_match ''UploadSpeed'' ku"
      "field_match ''TorrentCount'' kt" "field_match ''ActiveTorrentCount'' kn"
      "field_match ''PausedTorrentcount'' kp"
    by blast+
  from h have "Unmarshal_sessionStats b zero_sessionStats
      = (\<lparr>sessionStats.Arguments =
            \<lparr>DownloadSpeed = d, UploadSpeed = u, TorrentCount = t,
               ActiveTorrentCount = a, PausedTorrentcount = p\<rparr>,
          sessionStats.Result = res\<rparr>, None)"
    by (simp add: Unmarshal_sessionStats_def value_sessionStats_success [OF m])
  with assms show "Stats X c s =
              (if res = ''success''
               then ((Some \<lparr>DownloadSpeed = d, UploadSpeed = u, TorrentCount = t,
                             ActiveTorrentCount = a, PausedTorrentcount = p\<rparr>, None), s')
               else ((None, Some (errorString (''transmission: result: '' @ res))), s'))"
    by (simp add: Stats_def)
next
  assume bdef: \<open>b = ''{"arguments":{"activeTorrentCount":1,"downloadSpeed":1048576,"pausedTorrentCount":2,"torrentCount":3,"uploadSpeed":0},"result":"success"}''\<close>
  have "Unmarshal_sessionStats b zero_sessionStats
     = (\<lparr>sessionStats.Arguments =
           \<lparr>DownloadSpeed = 1048576, UploadSpeed = 0, TorrentCount = 3,
              ActiveTorrentCount = 1, PausedTorrentcount = 2\<rparr>,
         sessionStats.Result = ''success''\<rparr>, None)"
    unfolding bdef by (rule Unmarshal_stats_body)
  with assms show "Stats X c s =
              ((Some \<lparr>DownloadSpeed = 1048576, UploadSpeed = 0, TorrentCount = 3,
                       ActiveTorrentCount = 1, PausedTorrentcount = 2\<rparr>, None), s')"
    by (simp add: Stats_def)
qed

theorem Stats_result_witness:
  \<open>Stats scripted conn0
      (world0 [Inr (probe_reply ''sid''), Inr (body_reply ''{"result":"failure","arguments":{}}'')])
   = ((None, Some (errorString ''transmission: result: failure'')),
      \<lparr>sent = [GET_request conn0,
               POST_request conn0 ''sid'' (encode (GMap [(''method'', GString ''session-stats'')]))],
       remote = []\<rparr>)
   \<and> Stats scripted conn0
      (world0 [Inr (probe_reply ''sid''),
               Inr (body_reply ''{"result":"success","arguments":{"DownloadSpeed":1048576,"UploadSpeed":0,"TorrentCount":3,"ActiveTorrentCount":1,"PausedTorrentCount":2}}'')])
   = ((Some \<lparr>DownloadSpeed = 1048576, UploadSpeed = 0, TorrentCount = 3,
              ActiveTorrentCount = 1, PausedTorrentcount = 2\<rparr>, None),
      \<lparr>sent = [GET_request conn0,
               POST_request conn0 ''sid'' (encode (GMap [(''method'', GString ''session-stats'')]))],
       remote = []\<rparr>)
   \<and> Stats scripted conn0
      (world0 [Inr (probe_reply ''sid''),
               Inr (body_reply ''{"arguments":{"activeTorrentCount":1,"downloadSpeed":1048576,"pausedTorrentCount":2,"torrentCount":3,"uploadSpeed":0},"result":"success"}'')])
   = ((Some \<lparr>DownloadSpeed = 1048576, UploadSpeed = 0, TorrentCount = 3,
              ActiveTorrentCount = 1, PausedTorrentcount = 2\<rparr>, None),
      \<lparr>sent = [GET_request conn0,
               POST_request conn0 ''sid'' (encode (GMap [(''method'', GString ''session-stats'')]))],
       remote = []\<rparr>)\<close>
proof (intro conjI)
  note t = Stats_result [OF rpc_failure_example]
  have "sessionStats.Result \<lparr>sessionStats.Arguments = zero_Statistics, sessionStats.Result = ''failure''\<rparr>
        \<noteq> ''success''"
    by simp
  with t [THEN conjunct1, rule_format, OF Unmarshal_failure_body]
  have general: \<open>Stats scripted conn0
      (world0 [Inr (probe_reply ''sid''), Inr (body_reply ''{"result":"failure","arguments":{}}'')])
   = ((None, Some (errorString ''transmission: result: failure'')),
      \<lparr>sent = [GET_request conn0,
               POST_request conn0 ''sid'' (encode (GMap [(''method'', GString ''session-stats'')]))],
       remote = []\<rparr>)\<close>
    by simp
  from t [THEN conjunct2, THEN conjunct1] have particular: \<open>Stats scripted conn0
      (world0 [Inr (probe_reply ''sid''), Inr (body_reply ''{"result":"failure","arguments":{}}'')])
   = ((None, Some (errorString ''transmission: result: failure'')),
      \<lparr>sent = [GET_request conn0,
               POST_request conn0 ''sid'' (encode (GMap [(''method'', GString ''session-stats'')]))],
       remote = []\<rparr>)\<close>
    by simp
  from general particular show \<open>Stats scripted conn0
      (world0 [Inr (probe_reply ''sid''), Inr (body_reply ''{"result":"failure","arguments":{}}'')])
   = ((None, Some (errorString ''transmission: result: failure'')),
      \<lparr>sent = [GET_request conn0,
               POST_request conn0 ''sid'' (encode (GMap [(''method'', GString ''session-stats'')]))],
       remote = []\<rparr>)\<close>
    by simp
next
  note t = Stats_result [OF rpc_populated_example, THEN conjunct2, THEN conjunct2, THEN conjunct1, rule_format,
      where kr = "''result''" and ka = "''arguments''" and kd = "''DownloadSpeed''"
        and ku = "''UploadSpeed''" and kt = "''TorrentCount''" and kn = "''ActiveTorrentCount''"
        and kp = "''PausedTorrentCount''" and res = "''success''"
        and d = 1048576 and u = 0 and t = 3 and a = 1 and p = 2]
  have p: \<open>parse ''{"result":"success","arguments":{"DownloadSpeed":1048576,"UploadSpeed":0,"TorrentCount":3,"ActiveTorrentCount":1,"PausedTorrentCount":2}}'' =
     Some (JObject
       [(''result'', JString ''success''),
        (''arguments'',
         JObject [(''DownloadSpeed'', JNumber (FormatInt (sint (1048576 :: go_int)))),
                  (''UploadSpeed'', JNumber (FormatInt (sint (0 :: go_int)))),
                  (''TorrentCount'', JNumber (FormatInt (sint (3 :: go_int)))),
                  (''ActiveTorrentCount'', JNumber (FormatInt (sint (1 :: go_int)))),
                  (''PausedTorrentCount'', JNumber (FormatInt (sint (2 :: go_int))))])])\<close>
    unfolding FormatInt_examples by (rule parse_populated_body)
  from t field_match_examples p
  show \<open>Stats scripted conn0
      (world0 [Inr (probe_reply ''sid''),
               Inr (body_reply ''{"result":"success","arguments":{"DownloadSpeed":1048576,"UploadSpeed":0,"TorrentCount":3,"ActiveTorrentCount":1,"PausedTorrentCount":2}}'')])
   = ((Some \<lparr>DownloadSpeed = 1048576, UploadSpeed = 0, TorrentCount = 3,
              ActiveTorrentCount = 1, PausedTorrentcount = 2\<rparr>, None),
      \<lparr>sent = [GET_request conn0,
               POST_request conn0 ''sid'' (encode (GMap [(''method'', GString ''session-stats'')]))],
       remote = []\<rparr>)\<close>
    by (simp only: simp_thms if_True)
next
  from Stats_result [OF rpc_stats_example, THEN conjunct2, THEN conjunct2, THEN conjunct2]
  show \<open>Stats scripted conn0
      (world0 [Inr (probe_reply ''sid''),
               Inr (body_reply ''{"arguments":{"activeTorrentCount":1,"downloadSpeed":1048576,"pausedTorrentCount":2,"torrentCount":3,"uploadSpeed":0},"result":"success"}'')])
   = ((Some \<lparr>DownloadSpeed = 1048576, UploadSpeed = 0, TorrentCount = 3,
              ActiveTorrentCount = 1, PausedTorrentcount = 2\<rparr>, None),
      \<lparr>sent = [GET_request conn0,
               POST_request conn0 ''sid'' (encode (GMap [(''method'', GString ''session-stats'')]))],
       remote = []\<rparr>)\<close>
    by (simp only: simp_thms)
qed

text \<open>
  C5. Once the transport has returned a body that decodes to a \<open>Result\<close> of \<open>success\<close>
  and a \<open>Name\<close> of the added torrent that is not empty, \<open>Add\<close> returns exactly that
  name and no error; on the body of the specification it returns \<open>Ubuntu.iso\<close>.
\<close>

theorem Add_returns_name:
  assumes "rpc X c (GMap [(''method'', GString ''torrent-add''),
                          (''arguments'', GMap [(''paused'', GBool False), (''filename'', GString link)])]) s
           = ((b, None), s')"
  shows \<open>(\<forall>r. Unmarshal_torrentAdd b zero_torrentAdd = (r, None) \<and>
              torrentAdd.Result r = ''success'' \<and>
              Name (TorrentAdded (torrentAdd.Arguments r)) \<noteq> [] \<longrightarrow>
            Add X c link s = ((Name (TorrentAdded (torrentAdd.Arguments r)), None), s'))
       \<and> (b = ''{"result":"success","arguments":{"torrent-added":{"Id":1,"Name":"Ubuntu.iso","HashString":"abc123"}}}'' \<longrightarrow>
            Add X c link s = ((''Ubuntu.iso'', None), s'))\<close>
proof (intro conjI allI impI)
  fix r
  assume "Unmarshal_torrentAdd b zero_torrentAdd = (r, None) \<and>
              torrentAdd.Result r = ''success'' \<and>
              Name (TorrentAdded (torrentAdd.Arguments r)) \<noteq> []"
  with assms show "Add X c link s = ((Name (TorrentAdded (torrentAdd.Arguments r)), None), s')"
    by (simp add: Add_def)
next
  assume bdef: \<open>b = ''{"result":"success","arguments":{"torrent-added":{"Id":1,"Name":"Ubuntu.iso","HashString":"abc123"}}}''\<close>
  have "Unmarshal_torrentAdd b zero_torrentAdd
     = (\<lparr>torrentAdd.Arguments = \<lparr>TorrentAdded = \<lparr>Id' = 1, Name = ''Ubuntu.iso'', HashString = ''abc123''\<rparr>\<rparr>,
         torrentAdd.Result = ''success''\<rparr>, None)"
    unfolding bdef by (rule Unmarshal_added_body)
  with assms show "Add X c link s = ((''Ubuntu.iso'', None), s')"
    by (simp add: Add_def)
qed

theorem Add_returns_name_witness:
  \<open>Add scripted conn0 ''magnet:?xt=urn:btih:abc123''
      (world0 [Inr (probe_reply ''sid''),
               Inr (body_reply ''{"result":"success","arguments":{"torrent-added":{"Id":1,"Name":"Ubuntu.iso","HashString":"abc123"}}}'')])
   = ((''Ubuntu.iso'', None),
      \<lparr>sent = [GET_request conn0,
               POST_request conn0 ''sid''
                 (encode (GMap [(''method'', GString ''torrent-add''),
                                (''arguments'', GMap [(''paused'', GBool False),
                                                      (''filename'', GString ''magnet:?xt=urn:btih:abc123'')])]))],
       remote = []\<rparr>)\<close>
proof -
  note t = Add_returns_name [OF rpc_added_example]
  let ?r = "\<lparr>torrentAdd.Arguments = \<lparr>TorrentAdded = \<lparr>Id' = 1, Name = ''Ubuntu.iso'', HashString = ''abc123''\<rparr>\<rparr>,
             torrentAdd.Result = ''success''\<rparr>"
  have "torrentAdd.Result ?r = ''success'' \<and> Name (TorrentAdded (torrentAdd.Arguments ?r)) \<noteq> []"
    by simp
  with t [THEN conjunct1, rule_format, of ?r] Unmarshal_added_body
  have general: ?thesis by simp
  from t [THEN conjunct2] have particular: ?thesis by simp
  from general particular show ?thesis by simp
qed

text \<open>
  C6. Once the transport has returned a body that decodes to a \<open>Result\<close> of \<open>success\<close>
  and an empty \<open>Name\<close> of the added torrent, \<open>Add\<close> fails with the error
  \<open>transmission: empty result\<close>; so it does on the body of the specification.
\<close>

theorem Add_empty_name_fails:
  assumes "rpc X c (GMap [(''method'', GString ''torrent-add''),
                          (''arguments'', GMap [(''paused'', GBool False), (''filename'', GString link)])]) s
           = ((b, None), s')"
  shows \<open>(\<forall>r. Unmarshal_torrentAdd b zero_torrentAdd = (r, None) \<and>
              torrentAdd.Result r = ''success'' \<and>
              Name (TorrentAdded (torrentAdd.Arguments r)) = [] \<longrightarrow>
            Add X c link s = (([], Some (errorString ''transmission: empty result'')), s'))
       \<and> (b = ''{"result":"success","arguments":{"torrent-added":{"Id":1,"Name":"","HashString":""}}}'' \<longrightarrow>
            Add X c link s = (([], Some (errorString ''transmission: empty result'')), s'))\<close>
proof (intro conjI allI impI)
  fix r
  assume "Unmarshal_torrentAdd b zero_torrentAdd = (r, None) \<and>
              torrentAdd.Result r = ''success'' \<and>
              Name (TorrentAdded (torrentAdd.Arguments r)) = []"
  with assms show "Add X c link s = (([], Some (errorString ''transmission: empty result'')), s')"
    by (simp add: Add_def)
next
  assume bdef: \<open>b = ''{"result":"success","arguments":{"torrent-added":{"Id":1,"Name":"","HashString":""}}}''\<close>
  have "Unmarshal_torrentAdd b zero_torrentAdd
     = (\<lparr>torrentAdd.Arguments = \<lparr>TorrentAdded = \<lparr>Id' = 1, Name = [], HashString = []\<rparr>\<rparr>,
         torrentAdd.Result = ''success''\<rparr>, None)"
    unfolding bdef by (rule Unmarshal_empty_name_body)
  with assms show "Add X c link s = (([], Some (errorString ''transmission: empty result'')), s')"
    by (simp add: Add_def)
qed

theorem Add_empty_name_fails_witness:
  \<open>Add scripted conn0 ''magnet:?xt=urn:btih:abc123''
      (world0 [Inr (probe_reply ''sid''),
               Inr (body_reply ''{"result":"success","arguments":{"torrent-added":{"Id":1,"Name":"","HashString":""}}}'')])
   = (([], Some (errorString ''transmission: empty result'')),
      \<lparr>sent = [GET_request conn0,
               POST_request conn0 ''sid''
                 (encode (GMap [(''method'', GString ''torrent-add''),
                                (''arguments'', GMap [(''paused'', GBool False),
                                                      (''filename'', GString ''magnet:?xt=urn:btih:abc123'')])]))],
       remote = []\<rparr>)\<close>
proof -
  note t = Add_empty_name_fails [OF rpc_empty_name_example]
  let ?r = "\<lparr>torrentAdd.Arguments = \<lparr>TorrentAdded = \<lparr>Id' = 1, Name = [], HashString = []\<rparr>\<rparr>,
             torrentAdd.Result = ''success''\<rparr>"
  have "torrentAdd.Result ?r = ''success'' \<and> Name (TorrentAdded (torrentAdd.Arguments ?r)) = []"
    by simp
  with t [THEN conjunct1, rule_format, of ?r] Unmarshal_empty_name_body
  have general: ?thesis by simp
  from t [THEN conjunct2] have particular: ?thesis by simp
  from general particular show ?thesis by simp
qed

text \<open>
  C10. Whatever the remote side answers, \<open>Add\<close> returns a name that is not empty if
  and only if it returns no error: with an error the name is the empty string, and
  without one it is not.
\<close>

theorem Add_name_iff_no_error:
  "snd (fst (Add X c link s)) = None \<longleftrightarrow> fst (fst (Add X c link s)) \<noteq> []"
  by (simp add: Add_def split: prod.splits option.splits)

theorem Add_name_iff_no_error_witness:
  \<open>snd (fst (Add scripted conn0 ''magnet:?xt=urn:btih:abc123''
      (world0 [Inr (probe_reply ''sid''),
               Inr (body_reply ''{"result":"success","arguments":{"torrent-added":{"Id":1,"Name":"Ubuntu.iso","HashString":"abc123"}}}'')]))) = None
   \<and> fst (fst (Add scripted conn0 ''magnet:?xt=urn:btih:abc123''
      (world0 [Inr (probe_reply ''sid''),
               Inr (body_reply ''{"result":"success","arguments":{"torrent-added":{"Id":1,"Name":"Ubuntu.iso","HashString":"abc123"}}}'')]))) \<noteq> []\<close>
proof -
  let ?A = \<open>Add scripted conn0 ''magnet:?xt=urn:btih:abc123''
      (world0 [Inr (probe_reply ''sid''),
               Inr (body_reply ''{"result":"success","arguments":{"torrent-added":{"Id":1,"Name":"Ubuntu.iso","HashString":"abc123"}}}'')])\<close>
  have n: "snd (fst ?A) = None" by (simp only: Add_added_example fst_conv snd_conv)
  with Add_name_iff_no_error [of scripted conn0 "''magnet:?xt=urn:btih:abc123''"]
  have "fst (fst ?A) \<noteq> []" by blast
  with n show ?thesis by blast
qed

subsection \<open>The encoded requests\<close>

text \<open>
  The scanner reads back what \<open>appendString\<close> writes, for every byte sequence: the
  encoding of a string is one string token, whatever follows it.
\<close>

lemma lex_InStr_plain:
  "\<forall>x\<in>set xs. plain x \<Longrightarrow> lex (InStr raw) (xs @ rest) = lex (InStr (raw @ xs)) rest"
proof (induction xs arbitrary: raw)
  case Nil
  then show ?case by simp
next
  case (Cons x xs)
  then have "plain x" and ih: "lex (InStr (raw @ [x])) (xs @ rest) = lex (InStr ((raw @ [x]) @ xs)) rest"
    by simp_all
  then show ?case by (simp add: lex.simps plain_def)
qed

lemma plain_high: "0x80 \<le> byte x \<Longrightarrow> plain x"
  by (auto simp: plain_def byte_def)

lemma is_hex_hex_char: "d < 16 \<Longrightarrow> is_hex (hex_char d)"
proof -
  assume "d < 16"
  then consider "d < 10" | "10 \<le> d" "d < 16" by linarith
  then show ?thesis
  proof cases
    case 1
    then show ?thesis by (simp add: is_hex_def hex_char_def is_digit_def byte_def)
  next
    case 2
    then show ?thesis by (simp add: is_hex_def hex_char_def is_digit_def byte_def)
  qed
qed

lemma lex_InStr_escape2:
  "e \<in> set [CHR ''b'', CHR ''f'', CHR ''n'', CHR ''r'', CHR ''t'', CHR 0x5C, CHR ''/'', CHR 0x22] \<Longrightarrow>
   lex (InStr raw) (CHR 0x5C # e # rest) = lex (InStr (raw @ [CHR 0x5C, e])) rest"
  by (auto simp: lex.simps)

lemma lex_InStr_u4:
  "is_hex h1 \<Longrightarrow> is_hex h2 \<Longrightarrow> is_hex h3 \<Longrightarrow> is_hex h4 \<Longrightarrow>
   lex (InStr raw) (CHR 0x5C # CHR ''u'' # h1 # h2 # h3 # h4 # rest)
     = lex (InStr (raw @ [CHR 0x5C, CHR ''u'', h1, h2, h3, h4])) rest"
  by (simp add: lex.simps)

lemma lex_InStr_escape_ascii:
  assumes "byte c < 0x80"
  shows "lex (InStr raw) (escape_ascii c @ rest) = lex (InStr (raw @ escape_ascii c)) rest"
proof (cases "htmlSafe c")
  case True
  then have "plain c" by (simp add: htmlSafe_def plain_def)
  then show ?thesis using True lex_InStr_plain [of "[c]" raw rest] by (simp add: escape_ascii_def)
next
  case False
  have h0: "is_hex (CHR ''0'')" by (simp add: is_hex_def is_digit_def)
  have hd: "is_hex (hex_char (byte c div 16))" "is_hex (hex_char (byte c mod 16))"
    using assms by (simp_all add: is_hex_hex_char)
  show ?thesis
    using False lex_InStr_u4 [OF h0 h0 hd, of raw rest]
    by (simp add: escape_ascii_def lex_InStr_escape2)
qed

lemma DecodeRune_width:
  "DecodeRune (c # cs) = (r, n) \<Longrightarrow> 1 \<le> n \<and> n \<le> Suc (length cs)"
  by (auto simp: DecodeRune_def Let_def split: if_splits list.splits)

lemma DecodeRune_high:
  assumes "DecodeRune (c # cs) = (r, n)" and "0x80 \<le> byte c"
  shows "\<forall>x\<in>set (take (n - 1) cs). 0x80 \<le> byte x"
  using assms
  by (auto simp: DecodeRune_def Let_def cont_in_def accept_lo_def split: if_splits list.splits)

lemma escape_bytes_error:
  "\<not> byte c < 0x80 \<Longrightarrow> DecodeRune (c # cs) = (r, n) \<Longrightarrow> r = RuneError \<and> n = 1 \<Longrightarrow>
   escape_bytes (c # cs) =
     [CHR 0x5C, CHR ''u'', CHR ''f'', CHR ''f'', CHR ''f'', CHR ''d''] @ escape_bytes cs"
  by (simp only: escape_bytes.simps if_False if_True prod.case simp_thms)

lemma escape_bytes_separator:
  "\<not> byte c < 0x80 \<Longrightarrow> DecodeRune (c # cs) = (r, n) \<Longrightarrow> \<not> (r = RuneError \<and> n = 1) \<Longrightarrow>
   r = 0x2028 \<or> r = 0x2029 \<Longrightarrow>
   escape_bytes (c # cs) =
     [CHR 0x5C, CHR ''u'', CHR ''2'', CHR ''0'', CHR ''2'', hex_char (r mod 16)]
     @ escape_bytes (drop (n - 1) cs)"
  by (simp only: escape_bytes.simps if_False if_True prod.case simp_thms)

lemma escape_bytes_copy:
  "\<not> byte c < 0x80 \<Longrightarrow> DecodeRune (c # cs) = (r, n) \<Longrightarrow> \<not> (r = RuneError \<and> n = 1) \<Longrightarrow>
   \<not> (r = 0x2028 \<or> r = 0x2029) \<Longrightarrow>
   escape_bytes (c # cs) = take n (c # cs) @ escape_bytes (drop (n - 1) cs)"
  by (simp only: escape_bytes.simps if_False if_True prod.case simp_thms)

lemma escape_bytes_ascii:
  "byte c < 0x80 \<Longrightarrow> escape_bytes (c # cs) = escape_ascii c @ escape_bytes cs"
  by simp

lemma lex_InStr_escape_bytes:
  "lex (InStr raw) (escape_bytes s @ rest) = lex (InStr (raw @ escape_bytes s)) rest"
proof (induction s arbitrary: raw rule: escape_bytes.induct)
  case 1
  then show ?case by simp
next
  case (2 c cs)
  show ?case
  proof (cases "byte c < 0x80")
    case True
    have "lex (InStr raw) (escape_bytes (c # cs) @ rest)
          = lex (InStr raw) (escape_ascii c @ (escape_bytes cs @ rest))"
      by (simp only: escape_bytes_ascii [OF True] append_assoc)
    also have "\<dots> = lex (InStr (raw @ escape_ascii c)) (escape_bytes cs @ rest)"
      by (rule lex_InStr_escape_ascii [OF True])
    also have "\<dots> = lex (InStr ((raw @ escape_ascii c) @ escape_bytes cs)) rest"
      by (rule "2.IH"(1) [OF True])
    finally show ?thesis by (simp only: escape_bytes_ascii [OF True] append_assoc)
  next
    case False
    obtain r n where dr: "DecodeRune (c # cs) = (r, n)" by (cases "DecodeRune (c # cs)")
    have hf: "is_hex (CHR ''f'')" "is_hex (CHR ''d'')" "is_hex (CHR ''2'')" "is_hex (CHR ''0'')"
      by (simp_all add: is_hex_def is_digit_def byte_def)
    show ?thesis
    proof (cases "r = RuneError \<and> n = 1")
      case True
      let ?e = "[CHR 0x5C, CHR ''u'', CHR ''f'', CHR ''f'', CHR ''f'', CHR ''d'']"
      have eb: "escape_bytes (c # cs) = ?e @ escape_bytes cs"
        by (rule escape_bytes_error [OF False dr True])
      have "lex (InStr raw) (?e @ (escape_bytes cs @ rest)) = lex (InStr (raw @ ?e)) (escape_bytes cs @ rest)"
        using lex_InStr_u4 [OF hf(1) hf(1) hf(1) hf(2), of raw] by simp
      also have "\<dots> = lex (InStr ((raw @ ?e) @ escape_bytes cs)) rest"
        by (rule "2.IH"(2) [OF False dr [symmetric] True])
      finally show ?thesis by (simp only: eb append_assoc)
    next
      case nerr: False
      show ?thesis
      proof (cases "r = 0x2028 \<or> r = 0x2029")
        case True
        let ?e = "[CHR 0x5C, CHR ''u'', CHR ''2'', CHR ''0'', CHR ''2'', hex_char (r mod 16)]"
        have hx: "is_hex (hex_char (r mod 16))" by (simp add: is_hex_hex_char)
        have eb: "escape_bytes (c # cs) = ?e @ escape_bytes (drop (n - 1) cs)"
          by (rule escape_bytes_separator [OF False dr nerr True])
        have "lex (InStr raw) (?e @ (escape_bytes (drop (n - 1) cs) @ rest))
              = lex (InStr (raw @ ?e)) (escape_bytes (drop (n - 1) cs) @ rest)"
          using lex_InStr_u4 [OF hf(3) hf(4) hf(3) hx, of raw] by simp
        also have "\<dots> = lex (InStr ((raw @ ?e) @ escape_bytes (drop (n - 1) cs))) rest"
          by (rule "2.IH"(3) [OF False dr [symmetric] nerr True])
        finally show ?thesis by (simp only: eb append_assoc)
      next
        case n2028: False
        let ?e = "take n (c # cs)"
        have w: "1 \<le> n" using DecodeRune_width [OF dr] by simp
        then have tk: "take n (c # cs) = c # take (n - 1) cs" by (cases n) simp_all
        have pl: "\<forall>x\<in>set ?e. plain x"
          using DecodeRune_high [OF dr] False by (auto simp: tk intro: plain_high)
        have eb: "escape_bytes (c # cs) = ?e @ escape_bytes (drop (n - 1) cs)"
          by (rule escape_bytes_copy [OF False dr nerr n2028])
        have "lex (InStr raw) (?e @ (escape_bytes (drop (n - 1) cs) @ rest))
              = lex (InStr (raw @ ?e)) (escape_bytes (drop (n - 1) cs) @ rest)"
          by (rule lex_InStr_plain [OF pl])
        also have "\<dots> = lex (InStr ((raw @ ?e) @ escape_bytes (drop (n - 1) cs))) rest"
          by (rule "2.IH"(4) [OF False dr [symmetric] nerr n2028])
        finally show ?thesis by (simp only: eb append_assoc)
      qed
    qed
  qed
qed

lemma lex_appendString:
  "lex Top (appendString s @ rest) = emit (TStr (unquote (escape_bytes s))) (lex Top rest)"
proof -
  have "lex Top (appendString s @ rest) = lex (InStr []) (escape_bytes s @ CHR 0x22 # rest)"
    by (simp add: appendString_def lex.simps is_space_def byte_def)
  also have "\<dots> = lex (InStr (escape_bytes s)) (CHR 0x22 # rest)"
    using lex_InStr_escape_bytes [of "[]" s "CHR 0x22 # rest"] by simp
  also have "\<dots> = emit (TStr (unquote (escape_bytes s))) (lex Top rest)"
    by (simp add: lex.simps)
  finally show ?thesis .
qed

text \<open>For a string of ASCII bytes the token is the string itself.\<close>

lemma hex_val_hex_char: "d < 16 \<Longrightarrow> hex_val (hex_char d) = d"
proof -
  assume "d < 16"
  then consider "d < 10" | "10 \<le> d" "d < 16" by linarith
  then show ?thesis
  proof cases
    case 1
    then show ?thesis by (simp add: hex_val_def hex_char_def is_digit_def byte_def)
  next
    case 2
    then show ?thesis by (simp add: hex_val_def hex_char_def is_digit_def byte_def)
  qed
qed

lemma char_of_byte: "char_of (byte c) = c"
  by (simp add: byte_def)

lemma byte_eq_imp: "byte c = n \<Longrightarrow> c = char_of n"
  using char_of_byte [of c] by simp

lemma unquote_plain_ascii:
  "c \<noteq> CHR 0x5C \<Longrightarrow> byte c < 0x80 \<Longrightarrow> unquote (c # rest) = c # unquote rest"
  by simp

lemma unquote_escape2:
  "e \<noteq> CHR ''u'' \<Longrightarrow> unquote (CHR 0x5C # e # rest) = unescape e # unquote rest"
  by simp

lemma unquote_u:
  \<open>getu4 (CHR 0x5C # CHR ''u'' # h1 # h2 # h3 # h4 # rest) = Some rr \<Longrightarrow>
   \<not> (0xD800 \<le> rr \<and> rr < 0xE000) \<Longrightarrow>
   unquote (CHR 0x5C # CHR ''u'' # h1 # h2 # h3 # h4 # rest) = EncodeRune rr @ unquote rest\<close>
  by auto

lemma unquote_u00:
  assumes "b < 0x80"
  shows "unquote (CHR 0x5C # CHR ''u'' # CHR ''0'' # CHR ''0'' # hex_char (b div 16) # hex_char (b mod 16) # rest)
         = char_of b # unquote rest"
proof -
  have h0: "is_hex (CHR ''0'')" "hex_val (CHR ''0'') = 0"
    by (simp_all add: is_hex_def is_digit_def hex_val_def byte_def)
  have d: "b div 16 < 16" "b mod 16 < 16" using assms by simp_all
  have g: "getu4 (CHR 0x5C # CHR ''u'' # CHR ''0'' # CHR ''0'' # hex_char (b div 16) # hex_char (b mod 16) # rest)
           = Some b"
    using d by (simp add: getu4_def h0 is_hex_hex_char hex_val_hex_char)
  have e: "EncodeRune b = [char_of b]" using assms by (simp add: EncodeRune_def)
  have ns: "\<not> (0xD800 \<le> b \<and> b < 0xE000)" using assms by simp
  from unquote_u [OF g ns] show ?thesis by (simp only: e append_Cons append_Nil)
qed

lemma control_chars:
  "char_of (8 :: nat) = CHR 0x08" "char_of (12 :: nat) = CHR 0x0C" "char_of (10 :: nat) = CHR 0x0A"
  "char_of (13 :: nat) = CHR 0x0D" "char_of (9 :: nat) = CHR 0x09"
  by (simp_all add: char_of_eq_iff)

lemma unquote_escape_ascii:
  assumes "byte c < 0x80"
  shows "unquote (escape_ascii c @ rest) = c # unquote rest"
proof (cases "htmlSafe c")
  case True
  then show ?thesis using assms by (simp add: escape_ascii_def htmlSafe_def)
next
  case False
  consider "c = CHR 0x5C" | "c = CHR 0x22" | "byte c = 0x08" | "byte c = 0x0C" | "byte c = 0x0A"
    | "byte c = 0x0D" | "byte c = 0x09"
    | "c \<noteq> CHR 0x5C" "c \<noteq> CHR 0x22" "byte c \<noteq> 0x08" "byte c \<noteq> 0x0C" "byte c \<noteq> 0x0A"
      "byte c \<noteq> 0x0D" "byte c \<noteq> 0x09"
    by blast
  then show ?thesis
  proof cases
    case 1
    then show ?thesis using False by (simp add: escape_ascii_def unescape_def)
  next
    case 2
    then show ?thesis using False by (simp add: escape_ascii_def unescape_def)
  next
    case 3
    from byte_eq_imp [OF this] have "c = CHR 0x08" by (simp only: control_chars)
    then show ?thesis by (simp add: escape_ascii_def unescape_def htmlSafe_def byte_def)
  next
    case 4
    from byte_eq_imp [OF this] have "c = CHR 0x0C" by (simp only: control_chars)
    then show ?thesis by (simp add: escape_ascii_def unescape_def htmlSafe_def byte_def)
  next
    case 5
    from byte_eq_imp [OF this] have "c = CHR 0x0A" by (simp only: control_chars)
    then show ?thesis by (simp add: escape_ascii_def unescape_def htmlSafe_def byte_def)
  next
    case 6
    from byte_eq_imp [OF this] have "c = CHR 0x0D" by (simp only: control_chars)
    then show ?thesis by (simp add: escape_ascii_def unescape_def htmlSafe_def byte_def)
  next
    case 7
    from byte_eq_imp [OF this] have "c = CHR 0x09" by (simp only: control_chars)
    then show ?thesis by (simp add: escape_ascii_def unescape_def htmlSafe_def byte_def)
  next
    case 8
    then have "escape_ascii c = [CHR 0x5C, CHR ''u'', CHR ''0'', CHR ''0'',
            hex_char (byte c div 16), hex_char (byte c mod 16)]"
      using False by (simp add: escape_ascii_def)
    then show ?thesis using unquote_u00 [OF assms, of rest] by (simp add: char_of_byte)
  qed
qed

lemma unquote_escape_bytes_ascii:
  "list_all (\<lambda>c. byte c < 0x80) s \<Longrightarrow> unquote (escape_bytes s) = s"
proof (induction s)
  case Nil
  then show ?case by simp
next
  case (Cons c cs)
  then have a: "byte c < 0x80" and ih: "unquote (escape_bytes cs) = cs" by simp_all
  show ?case
    by (simp only: escape_bytes_ascii [OF a] unquote_escape_ascii [OF a] ih)
qed

text \<open>The two requests of the package, as texts and read back.\<close>

lemmas encode_eval =
  encode.simps appendString_def escape_ascii_def htmlSafe_def byte_def

lemma appendString_method: \<open>appendString ''method'' = ''"method"''\<close>
  by (simp add: encode_eval)

lemma appendString_arguments: \<open>appendString ''arguments'' = ''"arguments"''\<close>
  by (simp add: encode_eval)

lemma appendString_paused: \<open>appendString ''paused'' = ''"paused"''\<close>
  by (simp add: encode_eval)

lemma appendString_filename: \<open>appendString ''filename'' = ''"filename"''\<close>
  by (simp add: encode_eval)

lemma appendString_torrent_add: \<open>appendString ''torrent-add'' = ''"torrent-add"''\<close>
  by (simp add: encode_eval)

lemma appendString_session_stats: \<open>appendString ''session-stats'' = ''"session-stats"''\<close>
  by (simp add: encode_eval)

lemma key_order: "(''arguments'' :: string) < ''method''" "(''filename'' :: string) < ''paused''"
  by simp_all

lemma encode_session_stats:
  \<open>encode (GMap [(''method'', GString ''session-stats'')]) = ''{"method":"session-stats"}''\<close>
  by (simp add: encode.simps appendString_method appendString_session_stats)

lemma encode_torrent_add:
  \<open>encode (GMap [(''method'', GString ''torrent-add''),
                 (''arguments'', GMap [(''paused'', GBool False), (''filename'', GString link)])])
    = ''{"arguments":{"filename":'' @ appendString link @ '',"paused":false},"method":"torrent-add"}''\<close>
proof -
  have s1: "sort_key fst [(''paused'', a), (''filename'', b)] = [(''filename'', b), (''paused'', a)]" for a b :: string
    using key_order by (simp add: not_le)
  have s2: "sort_key fst [(''method'', a), (''arguments'', b)] = [(''arguments'', b), (''method'', a)]" for a b :: string
    using key_order by (simp add: not_le)
  show ?thesis
    by (simp add: encode.simps s1 s2 appendString_method appendString_arguments
          appendString_paused appendString_filename appendString_torrent_add)
qed

lemma lex_torrent_add_body:
  \<open>lex Top (''{"arguments":{"filename":'' @ appendString link @ '',"paused":false},"method":"torrent-add"}'')
     = Some [TLBrace, TStr ''arguments'', TColon, TLBrace,
             TStr ''filename'', TColon, TStr (unquote (escape_bytes link)), TComma,
             TStr ''paused'', TColon, TFalse, TRBrace, TComma,
             TStr ''method'', TColon, TStr ''torrent-add'', TRBrace]\<close>
  by (simp add: lex.simps lex_eval lex_appendString)

lemma parse_torrent_add_body:
  \<open>parse (''{"arguments":{"filename":'' @ appendString link @ '',"paused":false},"method":"torrent-add"}'')
     = Some (JObject [(''arguments'', JObject [(''filename'', JString (unquote (escape_bytes link))),
                                               (''paused'', JBool False)]),
                      (''method'', JString ''torrent-add'')])\<close>
  unfolding parse_def lex_torrent_add_body by (simp add: run_eval)

lemma lex_session_stats_body:
  \<open>lex Top ''{"method":"session-stats"}''
     = Some [TLBrace, TStr ''method'', TColon, TStr ''session-stats'', TRBrace]\<close>
  by (simp add: lex.simps lex_eval)

lemma parse_session_stats_body:
  \<open>parse ''{"method":"session-stats"}'' = Some (JObject [(''method'', JString ''session-stats'')])\<close>
  unfolding parse_def lex_session_stats_body by (simp add: run_eval)

lemma object_keys_torrent_add:
  \<open>object_keys (encode (GMap [(''method'', GString ''torrent-add''),
                 (''arguments'', GMap [(''paused'', GBool False), (''filename'', GString link)])]))
    = Some [''arguments'', ''method'']\<close>
  unfolding encode_torrent_add object_keys_def parse_torrent_add_body by simp

lemma object_keys_session_stats:
  \<open>object_keys (encode (GMap [(''method'', GString ''session-stats'')])) = Some [''method'']\<close>
  unfolding encode_session_stats object_keys_def parse_session_stats_body by simp

lemma has_key_torrent_add:
  \<open>has_key (encode (GMap [(''method'', GString ''torrent-add''),
                 (''arguments'', GMap [(''paused'', GBool False), (''filename'', GString link)])])) ''method''\<close>
  \<open>has_key (encode (GMap [(''method'', GString ''torrent-add''),
                 (''arguments'', GMap [(''paused'', GBool False), (''filename'', GString link)])])) ''arguments''\<close>
  unfolding has_key_def object_keys_torrent_add by simp_all

lemma has_key_session_stats:
  \<open>has_key ''{"method":"session-stats"}'' ''method''\<close>
  \<open>\<not> has_key ''{"method":"session-stats"}'' ''arguments''\<close>
  unfolding has_key_def object_keys_def parse_session_stats_body by simp_all

lemma parse_torrent_add_ascii:
  assumes "list_all (\<lambda>ch. byte ch < 0x80) link"
  shows \<open>parse (encode (GMap [(''method'', GString ''torrent-add''),
                 (''arguments'', GMap [(''paused'', GBool False), (''filename'', GString link)])]))
     = Some (JObject [(''arguments'', JObject [(''filename'', JString link), (''paused'', JBool False)]),
                      (''method'', JString ''torrent-add'')])\<close>
  unfolding encode_torrent_add parse_torrent_add_body unquote_escape_bytes_ascii [OF assms] by (rule refl)

lemma magnet_ascii: "list_all (\<lambda>ch. byte ch < 0x80) ''magnet:?xt=urn:btih:abc123''"
  by (simp add: byte_def)

lemma appendString_magnet:
  \<open>appendString ''magnet:?xt=urn:btih:abc123'' = ''"magnet:?xt=urn:btih:abc123"''\<close>
  by (simp add: encode_eval)

text \<open>
  C9. Every invocation of \<open>Add\<close> with a URL hands to the transport the method
  \<open>torrent-add\<close> with the arguments \<open>paused\<close>, false, and \<open>filename\<close>, the given URL,
  and nothing else. The POST, which goes out as soon as the probe of the invocation has
  given a session ID, has as its body the encoding of exactly this request: the JSON
  object with the member \<open>arguments\<close>, itself the object with \<open>filename\<close>, the URL
  as a JSON string, and \<open>paused\<close>, false, and the member \<open>method\<close>,
  \<open>torrent-add\<close>. For a URL of ASCII bytes that text reads back with the URL unchanged.
\<close>

theorem Add_sends_torrent_add:
  assumes "Add X c link s = (res, s')"
  shows \<open>((\<exists>tok vs resp w1.
             url_Parse X (url c @ ''/transmission/rpc'') = None \<and>
             RoundTrip X (GET_request c) (remote s) = (Inr resp, w1) \<and>
             Header resp ''X-Transmission-Session-Id'' = Some (tok # vs) \<and>
             sent s' = sent s @
               [GET_request c,
                POST_request c tok
                  (encode (GMap [(''method'', GString ''torrent-add''),
                                 (''arguments'', GMap [(''paused'', GBool False), (''filename'', GString link)])]))])
          \<or> (snd res \<noteq> None \<and>
              (sent s' = sent s \<or> sent s' = sent s @ [GET_request c]) \<and>
              \<not> (\<exists>tok vs resp w1.
                    url_Parse X (url c @ ''/transmission/rpc'') = None \<and>
                    RoundTrip X (GET_request c) (remote s) = (Inr resp, w1) \<and>
                    Header resp ''X-Transmission-Session-Id'' = Some (tok # vs))))
        \<and> encode (GMap [(''method'', GString ''torrent-add''),
                         (''arguments'', GMap [(''paused'', GBool False), (''filename'', GString link)])])
            = ''{"arguments":{"filename":'' @ appendString link @ '',"paused":false},"method":"torrent-add"}''
        \<and> (list_all (\<lambda>ch. byte ch < 0x80) link \<longrightarrow>
             parse (encode (GMap [(''method'', GString ''torrent-add''),
                                  (''arguments'', GMap [(''paused'', GBool False), (''filename'', GString link)])]))
             = Some (JObject [(''arguments'', JObject [(''filename'', JString link), (''paused'', JBool False)]),
                              (''method'', JString ''torrent-add'')]))\<close>
proof (intro conjI impI)
  let ?R = "GMap [(''method'', GString ''torrent-add''),
                  (''arguments'', GMap [(''paused'', GBool False), (''filename'', GString link)])]"
  from Add_rpc [OF assms] obtain r where r: "rpc X c ?R s = (r, s')" "snd r \<noteq> None \<longrightarrow> snd res \<noteq> None"
    by blast
  then show \<open>(\<exists>tok vs resp w1.
             url_Parse X (url c @ ''/transmission/rpc'') = None \<and>
             RoundTrip X (GET_request c) (remote s) = (Inr resp, w1) \<and>
             Header resp ''X-Transmission-Session-Id'' = Some (tok # vs) \<and>
             sent s' = sent s @ [GET_request c, POST_request c tok (encode ?R)])
          \<or> (snd res \<noteq> None \<and>
              (sent s' = sent s \<or> sent s' = sent s @ [GET_request c]) \<and>
              \<not> (\<exists>tok vs resp w1.
                    url_Parse X (url c @ ''/transmission/rpc'') = None \<and>
                    RoundTrip X (GET_request c) (remote s) = (Inr resp, w1) \<and>
                    Header resp ''X-Transmission-Session-Id'' = Some (tok # vs)))\<close>
    by (auto simp: rpc_cases split: option.splits prod.splits sum.splits list.splits)
next
  show \<open>encode (GMap [(''method'', GString ''torrent-add''),
                         (''arguments'', GMap [(''paused'', GBool False), (''filename'', GString link)])])
            = ''{"arguments":{"filename":'' @ appendString link @ '',"paused":false},"method":"torrent-add"}''\<close>
    by (rule encode_torrent_add)
next
  assume "list_all (\<lambda>ch. byte ch < 0x80) link"
  then show \<open>parse (encode (GMap [(''method'', GString ''torrent-add''),
                                  (''arguments'', GMap [(''paused'', GBool False), (''filename'', GString link)])]))
             = Some (JObject [(''arguments'', JObject [(''filename'', JString link), (''paused'', JBool False)]),
                              (''method'', JString ''torrent-add'')])\<close>
    by (rule parse_torrent_add_ascii)
qed

theorem Add_sends_torrent_add_witness:
  \<open>sent (snd (Add scripted conn0 ''magnet:?xt=urn:btih:abc123''
      (world0 [Inr (probe_reply ''sid''),
               Inr (body_reply ''{"result":"success","arguments":{"torrent-added":{"Id":1,"Name":"Ubuntu.iso","HashString":"abc123"}}}'')])))
   = [GET_request conn0,
      POST_request conn0 ''sid''
        ''{"arguments":{"filename":"magnet:?xt=urn:btih:abc123","paused":false},"method":"torrent-add"}'']
   \<and> parse ''{"arguments":{"filename":"magnet:?xt=urn:btih:abc123","paused":false},"method":"torrent-add"}''
       = Some (JObject [(''arguments'', JObject [(''filename'', JString ''magnet:?xt=urn:btih:abc123''),
                                                 (''paused'', JBool False)]),
                        (''method'', JString ''torrent-add'')])\<close>
proof -
  let ?W = \<open>world0 [Inr (probe_reply ''sid''),
               Inr (body_reply ''{"result":"success","arguments":{"torrent-added":{"Id":1,"Name":"Ubuntu.iso","HashString":"abc123"}}}'')]\<close>
  let ?R = "GMap [(''method'', GString ''torrent-add''),
                  (''arguments'', GMap [(''paused'', GBool False),
                                        (''filename'', GString ''magnet:?xt=urn:btih:abc123'')])]"
  obtain res s' where h: "Add scripted conn0 ''magnet:?xt=urn:btih:abc123'' ?W = (res, s')"
    by (cases "Add scripted conn0 ''magnet:?xt=urn:btih:abc123'' ?W")
  note t = Add_sends_torrent_add [OF h]
  have p: "url_Parse scripted (url conn0 @ ''/transmission/rpc'') = None"
    by (simp add: scripted_def)
  have rt: "\<exists>w1. RoundTrip scripted (GET_request conn0) (remote ?W) = (Inr (probe_reply ''sid''), w1)"
    by (simp add: scripted_def world0_def)
  have hd: "Header (probe_reply ''sid'') ''X-Transmission-Session-Id'' = Some [''sid'']"
    by (simp add: probe_reply_def)
  from t [THEN conjunct1] p rt hd
  have "sent s' = sent ?W @ [GET_request conn0, POST_request conn0 ''sid'' (encode ?R)]"
    by auto
  moreover have e: \<open>encode ?R = ''{"arguments":{"filename":"magnet:?xt=urn:btih:abc123","paused":false},"method":"torrent-add"}''\<close>
    using t [THEN conjunct2, THEN conjunct1] by (simp only: appendString_magnet append.simps)
  moreover have \<open>parse (encode ?R) = Some (JObject [(''arguments'', JObject [(''filename'', JString ''magnet:?xt=urn:btih:abc123''),
                                                 (''paused'', JBool False)]),
                        (''method'', JString ''torrent-add'')])\<close>
    using t [THEN conjunct2, THEN conjunct2] magnet_ascii by blast
  ultimately show ?thesis using h by (simp add: world0_def)
qed

text \<open>
  C8, as the code has it. The body of every POST that \<open>Add\<close> sends is a JSON object
  with the key \<open>method\<close> and the key \<open>arguments\<close>. The body of every POST that \<open>Stats\<close>
  sends is the JSON object \<open>{"method":"session-stats"}\<close>: it has the key \<open>method\<close> and
  no key \<open>arguments\<close>.
\<close>

theorem request_body_keys:
  \<open>(\<forall>q \<in> set (drop (length (sent s)) (sent (snd (Add X c link s)))).
       Method q = ''POST'' \<longrightarrow> has_key (ReqBody q) ''method'' \<and> has_key (ReqBody q) ''arguments'')
   \<and> (\<forall>q \<in> set (drop (length (sent s)) (sent (snd (Stats X c s)))).
       Method q = ''POST'' \<longrightarrow>
         ReqBody q = ''{"method":"session-stats"}'' \<and>
         has_key (ReqBody q) ''method'' \<and> \<not> has_key (ReqBody q) ''arguments'')\<close>
proof (intro conjI ballI impI)
  fix q
  assume q: "q \<in> set (drop (length (sent s)) (sent (snd (Add X c link s))))" "Method q = ''POST''"
  let ?R = "GMap [(''method'', GString ''torrent-add''),
                  (''arguments'', GMap [(''paused'', GBool False), (''filename'', GString link)])]"
  obtain new where n: "sent (snd (rpc X c ?R s)) = sent s @ new"
    "new = [] \<or> new = [GET_request c] \<or> (\<exists>tok. new = [GET_request c, POST_request c tok (encode ?R)])"
    using rpc_new_requests [of X c ?R s] by blast
  have b: "ReqBody q = encode ?R"
    using new_POST_body [OF n(1) n(2) _ q(2)] q(1) by (simp only: sent_Add)
  show "has_key (ReqBody q) ''method''" "has_key (ReqBody q) ''arguments''"
    unfolding b by (rule has_key_torrent_add)+
next
  fix q
  assume q: "q \<in> set (drop (length (sent s)) (sent (snd (Stats X c s))))" "Method q = ''POST''"
  let ?R = "GMap [(''method'', GString ''session-stats'')]"
  obtain new where n: "sent (snd (rpc X c ?R s)) = sent s @ new"
    "new = [] \<or> new = [GET_request c] \<or> (\<exists>tok. new = [GET_request c, POST_request c tok (encode ?R)])"
    using rpc_new_requests [of X c ?R s] by blast
  have b: \<open>ReqBody q = ''{"method":"session-stats"}''\<close>
    using new_POST_body [OF n(1) n(2) _ q(2)] q(1) by (simp only: sent_Stats encode_session_stats)
  show \<open>ReqBody q = ''{"method":"session-stats"}''\<close> by (rule b)
  show \<open>has_key (ReqBody q) ''method''\<close> \<open>\<not> has_key (ReqBody q) ''arguments''\<close>
    unfolding b by (rule has_key_session_stats)+
qed

text \<open>
  The claim C8 as stated promises the key \<open>arguments\<close> for the call of \<open>Stats\<close> too.
  The request of \<open>Stats\<close> is a map with the one entry \<open>method\<close>, and that is what is
  sent.
\<close>

theorem Stats_body_counterexample:
  \<open>sent (snd (Stats scripted conn0
      (world0 [Inr (probe_reply ''sid''), Inr (body_reply ''{"result":"failure","arguments":{}}'')])))
   = [GET_request conn0, POST_request conn0 ''sid'' ''{"method":"session-stats"}'']
   \<and> Method (POST_request conn0 ''sid'' ''{"method":"session-stats"}'') = ''POST''
   \<and> ReqBody (POST_request conn0 ''sid'' ''{"method":"session-stats"}'') = ''{"method":"session-stats"}''
   \<and> \<not> has_key ''{"method":"session-stats"}'' ''arguments''\<close>
proof -
  have \<open>sent (snd (Stats scripted conn0
      (world0 [Inr (probe_reply ''sid''), Inr (body_reply ''{"result":"failure","arguments":{}}'')])))
     = [GET_request conn0, POST_request conn0 ''sid'' (encode (GMap [(''method'', GString ''session-stats'')]))]\<close>
    by (simp only: sent_Stats rpc_failure_example snd_conv world.simps)
  then show ?thesis
    by (simp only: encode_session_stats has_key_session_stats) (simp add: POST_request_def)
qed

theorem request_body_keys_witness:
  \<open>POST_request conn0 ''sid''
      (encode (GMap [(''method'', GString ''torrent-add''),
                     (''arguments'', GMap [(''paused'', GBool False),
                                           (''filename'', GString ''magnet:?xt=urn:btih:abc123'')])]))
     \<in> set (drop (length (sent (world0 [Inr (probe_reply ''sid''),
               Inr (body_reply ''{"result":"success","arguments":{"torrent-added":{"Id":1,"Name":"Ubuntu.iso","HashString":"abc123"}}}'')])))
          (sent (snd (Add scripted conn0 ''magnet:?xt=urn:btih:abc123''
            (world0 [Inr (probe_reply ''sid''),
               Inr (body_reply ''{"result":"success","arguments":{"torrent-added":{"Id":1,"Name":"Ubuntu.iso","HashString":"abc123"}}}'')])))))
   \<and> has_key (ReqBody (POST_request conn0 ''sid''
      (encode (GMap [(''method'', GString ''torrent-add''),
                     (''arguments'', GMap [(''paused'', GBool False),
                                           (''filename'', GString ''magnet:?xt=urn:btih:abc123'')])])))) ''method''
   \<and> has_key (ReqBody (POST_request conn0 ''sid''
      (encode (GMap [(''method'', GString ''torrent-add''),
                     (''arguments'', GMap [(''paused'', GBool False),
                                           (''filename'', GString ''magnet:?xt=urn:btih:abc123'')])])))) ''arguments''
   \<and> POST_request conn0 ''sid'' ''{"method":"session-stats"}''
     \<in> set (drop (length (sent (world0 [Inr (probe_reply ''sid''),
               Inr (body_reply ''{"result":"failure","arguments":{}}'')])))
          (sent (snd (Stats scripted conn0
            (world0 [Inr (probe_reply ''sid''),
               Inr (body_reply ''{"result":"failure","arguments":{}}'')])))))
   \<and> has_key (ReqBody (POST_request conn0 ''sid'' ''{"method":"session-stats"}'')) ''method''
   \<and> \<not> has_key (ReqBody (POST_request conn0 ''sid'' ''{"method":"session-stats"}'')) ''arguments''\<close>
proof -
  let ?W = \<open>world0 [Inr (probe_reply ''sid''),
               Inr (body_reply ''{"result":"success","arguments":{"torrent-added":{"Id":1,"Name":"Ubuntu.iso","HashString":"abc123"}}}'')]\<close>
  let ?q = "POST_request conn0 ''sid''
      (encode (GMap [(''method'', GString ''torrent-add''),
                     (''arguments'', GMap [(''paused'', GBool False),
                                           (''filename'', GString ''magnet:?xt=urn:btih:abc123'')])]))"
  let ?V = \<open>world0 [Inr (probe_reply ''sid''), Inr (body_reply ''{"result":"failure","arguments":{}}'')]\<close>
  let ?p = \<open>POST_request conn0 ''sid'' ''{"method":"session-stats"}''\<close>
  have m: "?q \<in> set (drop (length (sent ?W)) (sent (snd (Add scripted conn0 ''magnet:?xt=urn:btih:abc123'' ?W))))"
    by (simp only: Add_added_example snd_conv world.simps) (simp add: world0_def)
  have p: "Method ?q = ''POST''" by (simp add: POST_request_def)
  have m': "?p \<in> set (drop (length (sent ?V)) (sent (snd (Stats scripted conn0 ?V))))"
    by (simp only: sent_Stats rpc_failure_example encode_session_stats snd_conv world.simps)
       (simp add: world0_def)
  have p': "Method ?p = ''POST''" by (simp add: POST_request_def)
  note t = request_body_keys [of ?W scripted conn0 "''magnet:?xt=urn:btih:abc123''"]
  note t' = request_body_keys [of ?V scripted conn0]
  from t [THEN conjunct1, rule_format, OF m p] t' [THEN conjunct2, rule_format, OF m' p'] m m'
  show ?thesis by blast
qed

end
